theory Spec2Isabelle
  imports Complex_Main
begin

section \<open>Python values and exceptions\<close>

text \<open>
  The service is one Python module, \<^verbatim>\<open>src/main.py\<close>. Its functions are embedded as HOL
  functions. A Python exception is a value of \<open>error\<close>; a computation that may raise
  has the type \<open>error + 'a\<close>, with \<open>Inl\<close> for the raised exception.
\<close>

datatype error =
    ValueError
  | IndexError
  | TypeError
  | KeyError
  | AttributeError
  | OverflowError
  | ZeroDivisionError
  | RequestException
  | JSONDecodeError
  | BadRequest
  | ModelError
  | StoreError

text \<open>Sequencing of two computations: the first exception raised is the one that leaves.\<close>

definition try_bind :: "error + 'a \<Rightarrow> ('a \<Rightarrow> error + 'b) \<Rightarrow> error + 'b" where
  "try_bind m f = (case m of Inl e \<Rightarrow> Inl e | Inr x \<Rightarrow> f x)"

text \<open>
  A Python float is modelled by the number it denotes: a finite float by a rational, and
  the three special values by constructors. Rounding to the nearest binary64 value is not
  modelled, and positive and negative zero are the same value. Overflow is modelled:
  \<open>float_overflow\<close> is the least magnitude that rounds beyond the largest finite float, where
  a conversion raises OverflowError and an arithmetic result becomes an infinity.
\<close>

datatype pyfloat = Finite rat | PosInf | NegInf | NaN

definition float_overflow :: rat where
  "float_overflow = 2 ^ 1024 - 2 ^ 970"

definition to_float :: "rat \<Rightarrow> pyfloat" where
  "to_float r =
     (if float_overflow \<le> r then PosInf
      else if r \<le> - float_overflow then NegInf
      else Finite r)"

text \<open>
  A decoded JSON document, as \<^verbatim>\<open>response.json()\<close> and \<^verbatim>\<open>json.loads\<close> return it. Strings are
  lists of 8-bit characters; an object is the list of its members, with distinct keys.
\<close>

datatype json =
    JNull
  | JBool bool
  | JInt int
  | JFloat pyfloat
  | JStr string
  | JArr "json list"
  | JObj "(string \<times> json) list"

text \<open>Python truth value of a decoded document (\<^verbatim>\<open>not x\<close>, \<^verbatim>\<open>x or y\<close>).\<close>

fun truthy :: "json \<Rightarrow> bool" where
  "truthy JNull = False"
| "truthy (JBool b) = b"
| "truthy (JInt n) = (n \<noteq> 0)"
| "truthy (JFloat f) = (f \<noteq> Finite 0)"
| "truthy (JStr s) = (s \<noteq> [])"
| "truthy (JArr xs) = (xs \<noteq> [])"
| "truthy (JObj kvs) = (kvs \<noteq> [])"

text \<open>\<^verbatim>\<open>len(x)\<close>: defined on strings, lists and dicts, a TypeError on the rest.\<close>

fun py_len :: "json \<Rightarrow> error + nat" where
  "py_len (JStr s) = Inr (length s)"
| "py_len (JArr xs) = Inr (length xs)"
| "py_len (JObj kvs) = Inr (length kvs)"
| "py_len _ = Inl TypeError"

text \<open>
  \<^verbatim>\<open>x[i]\<close> for an index \<open>i \<ge> 0\<close>: a list gives the element, a string the one-character
  string, both an IndexError out of range; a dict decoded from JSON has string keys only, so
  an integer key is a KeyError; nothing else is subscriptable.
\<close>

fun py_getitem :: "json \<Rightarrow> nat \<Rightarrow> error + json" where
  "py_getitem (JArr xs) i = (if i < length xs then Inr (xs ! i) else Inl IndexError)"
| "py_getitem (JStr s) i = (if i < length s then Inr (JStr [s ! i]) else Inl IndexError)"
| "py_getitem (JObj kvs) i = Inl KeyError"
| "py_getitem _ i = Inl TypeError"

text \<open>\<^verbatim>\<open>list.index(x)\<close>: the position of the first element equal to \<open>x\<close>.\<close>

fun index_of :: "'a \<Rightarrow> 'a list \<Rightarrow> nat option" where
  "index_of x [] = None"
| "index_of x (y # ys) =
     (if y = x then Some 0 else (case index_of x ys of None \<Rightarrow> None | Some i \<Rightarrow> Some (Suc i)))"

text \<open>\<^verbatim>\<open>str.index(sub)\<close>: the position of the first occurrence of \<open>sub\<close>.\<close>

fun is_prefix :: "string \<Rightarrow> string \<Rightarrow> bool" where
  "is_prefix [] s = True"
| "is_prefix (p # ps) [] = False"
| "is_prefix (p # ps) (c # cs) = (p = c \<and> is_prefix ps cs)"

fun str_find :: "string \<Rightarrow> string \<Rightarrow> nat option" where
  "str_find sub [] = (if sub = [] then Some 0 else None)"
| "str_find sub (c # cs) =
     (if is_prefix sub (c # cs) then Some 0
      else (case str_find sub cs of None \<Rightarrow> None | Some i \<Rightarrow> Some (Suc i)))"

text \<open>
  \<^verbatim>\<open>headers.index(field_name)\<close> with a string \<open>field_name\<close>: a string equals no value of
  another type, so in a list it is the first element that is this string; on a string it
  is the substring search; the other values have no \<^verbatim>\<open>index\<close> attribute.
\<close>

fun py_index :: "json \<Rightarrow> string \<Rightarrow> error + nat" where
  "py_index (JArr xs) name =
     (case index_of (JStr name) xs of None \<Rightarrow> Inl ValueError | Some i \<Rightarrow> Inr i)"
| "py_index (JStr s) name =
     (case str_find name s of None \<Rightarrow> Inl ValueError | Some i \<Rightarrow> Inr i)"
| "py_index _ name = Inl AttributeError"

section \<open>The built-in conversions \<^verbatim>\<open>int\<close> and \<^verbatim>\<open>float\<close>\<close>

text \<open>
  Both conversions skip surrounding whitespace of a string, accept one sign, and read
  decimal digits in which single underscores may stand between two digits. The
  characters are those of Latin-1. The whitespace the conversions skip is tab, line feed,
  vertical tab, form feed, carriage return, space, and the characters 133 and 160; the
  separators 28 to 31 are not skipped.
\<close>

definition is_space :: "char \<Rightarrow> bool" where
  "is_space c = (of_char c \<in> {9, 10, 11, 12, 13, 32, 133, 160 :: nat})"

definition is_digit :: "char \<Rightarrow> bool" where
  "is_digit c = (48 \<le> (of_char c :: nat) \<and> (of_char c :: nat) \<le> 57)"

definition digit_val :: "char \<Rightarrow> nat" where
  "digit_val c = of_char c - 48"

definition strip :: "string \<Rightarrow> string" where
  "strip s = rev (dropWhile is_space (rev (dropWhile is_space s)))"

text \<open>
  The digits after a first digit: \<open>digits_from acc s\<close> continues the number \<open>acc\<close> and
  counts nothing for an underscore, which must be followed by a digit.
\<close>

fun digits_from :: "nat \<Rightarrow> string \<Rightarrow> nat option" where
  "digits_from acc [] = Some acc"
| "digits_from acc (c # cs) =
     (if is_digit c then digits_from (acc * 10 + digit_val c) cs
      else if c = CHR ''_'' then
        (case cs of
           [] \<Rightarrow> None
         | d # ds \<Rightarrow> if is_digit d then digits_from (acc * 10 + digit_val d) ds else None)
      else None)"

definition digitpart :: "string \<Rightarrow> nat option" where
  "digitpart s =
     (case s of [] \<Rightarrow> None | c # cs \<Rightarrow> if is_digit c then digits_from (digit_val c) cs else None)"

text \<open>An optional sign: the factor it stands for, and the rest of the string.\<close>

definition take_sign :: "string \<Rightarrow> int \<times> string" where
  "take_sign s =
     (case s of
        [] \<Rightarrow> (1, [])
      | c # cs \<Rightarrow> if c = CHR ''-'' then (-1, cs) else if c = CHR ''+'' then (1, cs) else (1, c # cs))"

text \<open>
  The interpreter's limit on the conversion between integers and decimal text, at its
  default of 4300 digits: \<^verbatim>\<open>int\<close> refuses a text with more digits (leading zeros counted,
  underscores not), and writing an integer of more digits in decimal raises a ValueError.
\<close>

definition max_str_digits :: nat where
  "max_str_digits = 4300"

definition count_digits :: "string \<Rightarrow> nat" where
  "count_digits s = length (filter is_digit s)"

definition str_digits_ok :: "int \<Rightarrow> bool" where
  "str_digits_ok n = (\<bar>n\<bar> < 10 ^ max_str_digits)"

text \<open>
  \<^verbatim>\<open>str\<close>, \<^verbatim>\<open>repr\<close>, an f-string field and the JSON encoder write every integer of a value in
  decimal: they succeed on a decoded document when each of its integers is within the
  limit.
\<close>

fun json_ints_ok :: "json \<Rightarrow> bool" where
  "json_ints_ok (JInt n) = str_digits_ok n"
| "json_ints_ok (JArr xs) = list_all json_ints_ok xs"
| "json_ints_ok (JObj kvs) = list_all (\<lambda>kv. json_ints_ok (snd kv)) kvs"
| "json_ints_ok _ = True"

text \<open>\<^verbatim>\<open>int(s)\<close> for a string, base ten: \<open>None\<close> stands for the ValueError.\<close>

definition int_of_str :: "string \<Rightarrow> int option" where
  "int_of_str s =
     (case take_sign (strip s) of
        (sg, body) \<Rightarrow>
          (case digitpart body of
             None \<Rightarrow> None
           | Some n \<Rightarrow> if max_str_digits < count_digits body then None else Some (sg * int n)))"

text \<open>Truncation towards zero, as \<^verbatim>\<open>int(x)\<close> of a float does.\<close>

definition trunc_rat :: "rat \<Rightarrow> int" where
  "trunc_rat r = (if r < 0 then - \<lfloor>- r\<rfloor> else \<lfloor>r\<rfloor>)"

text \<open>
  \<^verbatim>\<open>int(x)\<close> of a decoded value: a string is parsed, an integer is itself, a boolean is 0
  or 1, a float is truncated (ValueError for NaN, OverflowError for an infinity); \<^verbatim>\<open>None\<close>,
  lists and dicts are a TypeError.
\<close>

fun py_int :: "json \<Rightarrow> error + int" where
  "py_int (JStr s) = (case int_of_str s of None \<Rightarrow> Inl ValueError | Some n \<Rightarrow> Inr n)"
| "py_int (JInt n) = Inr n"
| "py_int (JBool b) = Inr (if b then 1 else 0)"
| "py_int (JFloat (Finite r)) = Inr (trunc_rat r)"
| "py_int (JFloat NaN) = Inl ValueError"
| "py_int (JFloat PosInf) = Inl OverflowError"
| "py_int (JFloat NegInf) = Inl OverflowError"
| "py_int _ = Inl TypeError"

text \<open>
  \<^verbatim>\<open>float(s)\<close> for a string. After the sign stands \<^verbatim>\<open>inf\<close>, \<^verbatim>\<open>infinity\<close> or \<^verbatim>\<open>nan\<close> in any
  case of letters, or a decimal number: digits with an optional point (at least one digit
  part), then an optional exponent. \<open>None\<close> stands for the ValueError; a number beyond
  the float range is an infinity. There is no limit on the digits here.
\<close>

definition lower_char :: "char \<Rightarrow> char" where
  "lower_char c =
     (if 65 \<le> (of_char c :: nat) \<and> (of_char c :: nat) \<le> 90
      then char_of ((of_char c :: nat) + 32) else c)"

definition is_exp_mark :: "char \<Rightarrow> bool" where
  "is_exp_mark c = (c = CHR ''e'' \<or> c = CHR ''E'')"

definition is_point :: "char \<Rightarrow> bool" where
  "is_point c = (c = CHR ''.'')"

definition mantissa :: "string \<Rightarrow> rat option" where
  "mantissa m =
     (let ip = takeWhile (\<lambda>c. \<not> is_point c) m;
          rest = dropWhile (\<lambda>c. \<not> is_point c) m
      in case rest of
           [] \<Rightarrow> (case digitpart ip of None \<Rightarrow> None | Some n \<Rightarrow> Some (of_nat n))
         | p # fp \<Rightarrow>
             if fp = [] then (case digitpart ip of None \<Rightarrow> None | Some n \<Rightarrow> Some (of_nat n))
             else (case digitpart fp of
                     None \<Rightarrow> None
                   | Some f \<Rightarrow>
                       if ip = [] then Some (of_nat f / 10 ^ count_digits fp)
                       else (case digitpart ip of
                               None \<Rightarrow> None
                             | Some n \<Rightarrow> Some (of_nat n + of_nat f / 10 ^ count_digits fp))))"

definition exponent :: "string \<Rightarrow> int option" where
  "exponent ex =
     (case take_sign ex of
        (sg, ds) \<Rightarrow> (case digitpart ds of None \<Rightarrow> None | Some n \<Rightarrow> Some (sg * int n)))"

definition scale10 :: "rat \<Rightarrow> int \<Rightarrow> rat" where
  "scale10 m k = (if 0 \<le> k then m * 10 ^ nat k else m / 10 ^ nat (- k))"

definition decimal_value :: "string \<Rightarrow> rat option" where
  "decimal_value body =
     (let mant = takeWhile (\<lambda>c. \<not> is_exp_mark c) body;
          rest = dropWhile (\<lambda>c. \<not> is_exp_mark c) body
      in case mantissa mant of
           None \<Rightarrow> None
         | Some m \<Rightarrow>
             (case rest of
                [] \<Rightarrow> Some m
              | e # ex \<Rightarrow> (case exponent ex of None \<Rightarrow> None | Some k \<Rightarrow> Some (scale10 m k))))"

definition float_of_str :: "string \<Rightarrow> pyfloat option" where
  "float_of_str s =
     (case take_sign (strip s) of
        (sg, body) \<Rightarrow>
          (let low = map lower_char body
           in if low = ''inf'' \<or> low = ''infinity'' then Some (if sg < 0 then NegInf else PosInf)
              else if low = ''nan'' then Some NaN
              else (case decimal_value body of
                      None \<Rightarrow> None
                    | Some r \<Rightarrow> Some (to_float (of_int sg * r)))))"

text \<open>
  \<^verbatim>\<open>float(x)\<close> of a decoded value: a string is parsed, a float is itself, an integer is
  converted (OverflowError beyond the float range); \<^verbatim>\<open>None\<close>, lists and dicts are a
  TypeError.
\<close>

fun py_float :: "json \<Rightarrow> error + pyfloat" where
  "py_float (JStr s) = (case float_of_str s of None \<Rightarrow> Inl ValueError | Some f \<Rightarrow> Inr f)"
| "py_float (JInt n) =
     (if float_overflow \<le> \<bar>of_int n\<bar> then Inl OverflowError else Inr (Finite (of_int n)))"
| "py_float (JBool b) = Inr (Finite (if b then 1 else 0))"
| "py_float (JFloat f) = Inr f"
| "py_float _ = Inl TypeError"

text \<open>\<^verbatim>\<open>x or y\<close>.\<close>

definition py_or :: "json \<Rightarrow> json \<Rightarrow> json" where
  "py_or x y = (if truthy x then x else y)"

section \<open>The demographic record extractor\<close>

text \<open>
  The two nested helpers of \<^verbatim>\<open>fetch_census_demographics\<close> close over \<^verbatim>\<open>headers\<close> and
  \<^verbatim>\<open>values\<close>; here they take them as arguments. Each has the handler
  \<^verbatim>\<open>except (ValueError, IndexError, TypeError)\<close>, which returns the default; any other
  exception leaves the helper.
\<close>

definition caught :: "error \<Rightarrow> bool" where
  "caught e = (e = ValueError \<or> e = IndexError \<or> e = TypeError)"

definition get_value :: "json \<Rightarrow> json \<Rightarrow> string \<Rightarrow> error + int" where
  "get_value headers values field_name =
     (case try_bind (py_index headers field_name)
             (\<lambda>index. try_bind (py_getitem values index) py_int) of
        Inr n \<Rightarrow> Inr n
      | Inl e \<Rightarrow> if caught e then Inr 0 else Inl e)"

definition get_string_value :: "json \<Rightarrow> json \<Rightarrow> string \<Rightarrow> error + json" where
  "get_string_value headers values field_name =
     (case try_bind (py_index headers field_name) (\<lambda>index. py_getitem values index) of
        Inr v \<Rightarrow> Inr v
      | Inl e \<Rightarrow> if caught e then Inr (JStr []) else Inl e)"

text \<open>
  The dictionary \<^verbatim>\<open>demographics\<close>, with its keys in the order of the source. The counts
  are Python integers; \<^verbatim>\<open>name\<close> and \<^verbatim>\<open>zipCode\<close> hold whatever value the row has in their
  columns.
\<close>

record demographics =
  name :: json
  population :: int
  medianIncome :: int
  medianAge :: pyfloat
  raceWhite :: int
  raceBlack :: int
  raceNative :: int
  raceAsian :: int
  educationPopulation :: int
  educationBachelors :: int
  educationGraduate :: int
  medianHomeValue :: int
  medianRent :: int
  housingUnits :: int
  ownerOccupied :: int
  renterOccupied :: int
  ageUnder18 :: int
  age18to64 :: int
  age65plus :: int
  commuteTotal :: int
  commuteDrive :: int
  commutePublic :: int
  commuteWfh :: int
  zipCode :: json

text \<open>A list comprehension over a call that may raise: the elements in order.\<close>

fun try_map :: "('a \<Rightarrow> error + 'b) \<Rightarrow> 'a list \<Rightarrow> error + 'b list" where
  "try_map f [] = Inr []"
| "try_map f (x # xs) =
     try_bind (f x) (\<lambda>y. try_bind (try_map f xs) (\<lambda>ys. Inr (y # ys)))"

text \<open>The twelve columns summed into \<^verbatim>\<open>age_65_plus\<close>, as the source lists them.\<close>

definition age_65_fields :: "string list" where
  "age_65_fields =
     [''B01001_020E'', ''B01001_021E'', ''B01001_022E'', ''B01001_023E'', ''B01001_024E'',
      ''B01001_025E'', ''B01001_044E'', ''B01001_045E'', ''B01001_046E'', ''B01001_047E'',
      ''B01001_048E'', ''B01001_049E'']"

text \<open>
  The three columns summed into \<^verbatim>\<open>education_graduate\<close>, in the order of the source's sum.
\<close>

definition education_graduate_of :: "json \<Rightarrow> json \<Rightarrow> error + int" where
  "education_graduate_of headers values =
     try_bind (get_value headers values ''B15003_023E'') (\<lambda>masters.
     try_bind (get_value headers values ''B15003_024E'') (\<lambda>professional.
     try_bind (get_value headers values ''B15003_025E'') (\<lambda>doctorate.
       Inr (masters + professional + doctorate))))"

text \<open>
  The part of the \<^verbatim>\<open>try\<close> block after \<^verbatim>\<open>headers\<close> and \<^verbatim>\<open>values\<close> are bound: the derived
  fields first, then the entries of the dictionary in their order. \<^verbatim>\<open>medianAge\<close> is
  \<^verbatim>\<open>float(get_string_value('B01002_001E') or 0)\<close>, outside any handler of the helpers.
\<close>

definition build_demographics :: "json \<Rightarrow> json \<Rightarrow> string \<Rightarrow> error + demographics" where
  "build_demographics headers values zip_code =
     try_bind (get_value headers values ''B01003_001E'') (\<lambda>total_population.
     try_bind (get_value headers values ''B09001_001E'') (\<lambda>age_under_18.
     try_bind (try_map (get_value headers values) age_65_fields) (\<lambda>age_65_groups.
     try_bind (education_graduate_of headers values) (\<lambda>education_graduate.
     try_bind (get_string_value headers values ''NAME'') (\<lambda>v_name.
     try_bind (get_value headers values ''B19013_001E'') (\<lambda>v_income.
     try_bind (get_string_value headers values ''B01002_001E'') (\<lambda>raw_age.
     try_bind (py_float (py_or raw_age (JInt 0))) (\<lambda>v_age.
     try_bind (get_value headers values ''B02001_002E'') (\<lambda>v_white.
     try_bind (get_value headers values ''B02001_003E'') (\<lambda>v_black.
     try_bind (get_value headers values ''B02001_004E'') (\<lambda>v_native.
     try_bind (get_value headers values ''B02001_005E'') (\<lambda>v_asian.
     try_bind (get_value headers values ''B15003_001E'') (\<lambda>v_edu_pop.
     try_bind (get_value headers values ''B15003_022E'') (\<lambda>v_bachelors.
     try_bind (get_value headers values ''B25077_001E'') (\<lambda>v_home.
     try_bind (get_value headers values ''B25064_001E'') (\<lambda>v_rent.
     try_bind (get_value headers values ''B25002_001E'') (\<lambda>v_units.
     try_bind (get_value headers values ''B25002_002E'') (\<lambda>v_owner.
     try_bind (get_value headers values ''B25002_003E'') (\<lambda>v_renter.
     try_bind (get_value headers values ''B08301_001E'') (\<lambda>v_commute.
     try_bind (get_value headers values ''B08301_002E'') (\<lambda>v_drive.
     try_bind (get_value headers values ''B08301_010E'') (\<lambda>v_public.
     try_bind (get_value headers values ''B08301_021E'') (\<lambda>v_wfh.
     try_bind (get_string_value headers values ''zip code tabulation area'') (\<lambda>v_zcta.
       Inr \<lparr> name = v_name,
             population = total_population,
             medianIncome = v_income,
             medianAge = v_age,
             raceWhite = v_white,
             raceBlack = v_black,
             raceNative = v_native,
             raceAsian = v_asian,
             educationPopulation = v_edu_pop,
             educationBachelors = v_bachelors,
             educationGraduate = education_graduate,
             medianHomeValue = v_home,
             medianRent = v_rent,
             housingUnits = v_units,
             ownerOccupied = v_owner,
             renterOccupied = v_renter,
             ageUnder18 = age_under_18,
             age18to64 = total_population - age_under_18 - sum_list age_65_groups,
             age65plus = sum_list age_65_groups,
             commuteTotal = v_commute,
             commuteDrive = v_drive,
             commutePublic = v_public,
             commuteWfh = v_wfh,
             zipCode = py_or v_zcta (JStr zip_code) \<rparr>))))))))))))))))))))))))"

text \<open>
  What the Census request gives: \<^verbatim>\<open>requests.get\<close> or \<^verbatim>\<open>raise_for_status\<close> raises, the body
  is not JSON, or the body decodes to a document.
\<close>

datatype upstream = HttpFailure | BodyNotJson | Payload json

text \<open>
  The \<^verbatim>\<open>try\<close> block of \<^verbatim>\<open>fetch_census_demographics\<close>: it raises, returns \<^verbatim>\<open>None\<close> for a
  payload that is falsy or shorter than two rows, or returns the dictionary.
\<close>

definition census_try :: "upstream \<Rightarrow> string \<Rightarrow> error + demographics option" where
  "census_try up zip_code =
     (case up of
        HttpFailure \<Rightarrow> Inl RequestException
      | BodyNotJson \<Rightarrow> Inl JSONDecodeError
      | Payload data \<Rightarrow>
          if \<not> truthy data then Inr None
          else try_bind (py_len data) (\<lambda>n.
               if n < 2 then Inr None
               else try_bind (py_getitem data 0) (\<lambda>headers.
                    try_bind (py_getitem data 1) (\<lambda>values.
                    try_bind (build_demographics headers values zip_code) (\<lambda>d.
                      Inr (Some d))))))"

text \<open>
  The two handlers of the block: \<^verbatim>\<open>except requests.exceptions.RequestException\<close>, then
  \<^verbatim>\<open>except Exception\<close>. Both log and return \<^verbatim>\<open>None\<close>.
\<close>

definition fetch_census_demographics :: "upstream \<Rightarrow> string \<Rightarrow> demographics option" where
  "fetch_census_demographics up zip_code =
     (case census_try up zip_code of
        Inr r \<Rightarrow> r
      | Inl e \<Rightarrow> if e = RequestException then None else None)"

section \<open>The two prompts\<close>

text \<open>
  \<^verbatim>\<open>a / b\<close> on integers is true division: a ZeroDivisionError for the divisor 0, an
  OverflowError for a quotient beyond the float range, the quotient otherwise.
\<close>

definition py_truediv :: "int \<Rightarrow> int \<Rightarrow> error + pyfloat" where
  "py_truediv a b =
     (if b = 0 then Inl ZeroDivisionError
      else if float_overflow \<le> \<bar>of_int a / of_int b\<bar> then Inl OverflowError
      else Inr (Finite (of_int a / of_int b)))"

text \<open>\<^verbatim>\<open>x * 100\<close> on a float: a product beyond the float range is an infinity.\<close>

definition times_100 :: "pyfloat \<Rightarrow> pyfloat" where
  "times_100 x =
     (case x of Finite r \<Rightarrow> to_float (r * 100) | PosInf \<Rightarrow> PosInf | NegInf \<Rightarrow> NegInf | NaN \<Rightarrow> NaN)"

text \<open>
  \<^verbatim>\<open>a / b * 100 if b > 0 else 0\<close>, the shape of every derived percentage of the source.
\<close>

definition percent_if_positive :: "int \<Rightarrow> int \<Rightarrow> error + pyfloat" where
  "percent_if_positive a b =
     (if b > 0 then try_bind (py_truediv a b) (\<lambda>q. Inr (times_100 q)) else Inr (Finite 0))"

text \<open>
  The five derived percentages, under the names of the source. \<^verbatim>\<open>get_gemini_profile\<close>
  computes all five; \<^verbatim>\<open>find_doppelgangers\<close> computes the first two with the same
  expressions.
\<close>

definition higher_ed_percent :: "demographics \<Rightarrow> error + pyfloat" where
  "higher_ed_percent data =
     percent_if_positive (educationBachelors data + educationGraduate data)
       (educationPopulation data)"

definition owner_occupied_percent :: "demographics \<Rightarrow> error + pyfloat" where
  "owner_occupied_percent data = percent_if_positive (ownerOccupied data) (housingUnits data)"

definition wfh_percent :: "demographics \<Rightarrow> error + pyfloat" where
  "wfh_percent data = percent_if_positive (commuteWfh data) (commuteTotal data)"

definition age_under_18_percent :: "demographics \<Rightarrow> error + pyfloat" where
  "age_under_18_percent data = percent_if_positive (ageUnder18 data) (population data)"

definition age_65_plus_percent :: "demographics \<Rightarrow> error + pyfloat" where
  "age_65_plus_percent data = percent_if_positive (age65plus data) (population data)"

text \<open>
  The formatting helpers. The text they produce is not modelled: each gives back the
  value it formats, or the exception the formatting raises. \<^verbatim>\<open>format_currency\<close> formats an
  integer with \<^verbatim>\<open>.0f\<close>, which converts it to a float first; \<^verbatim>\<open>format_number\<close> writes an
  integer in decimal; \<^verbatim>\<open>format_percent\<close> formats a float (or the integer 0) and never
  raises. \<open>format_value\<close> is a plain f-string field \<^verbatim>\<open>{x}\<close> of a decoded value.
\<close>

definition format_currency :: "int \<Rightarrow> error + int" where
  "format_currency v = try_bind (py_float (JInt v)) (\<lambda>as_float. Inr v)"

definition format_number :: "int \<Rightarrow> error + int" where
  "format_number v = (if str_digits_ok v then Inr v else Inl ValueError)"

definition format_percent :: "pyfloat \<Rightarrow> error + pyfloat" where
  "format_percent v = Inr v"

definition format_value :: "json \<Rightarrow> error + json" where
  "format_value v = (if json_ints_ok v then Inr v else Inl ValueError)"

text \<open>
  A prompt is a fixed template around the values interpolated into it, so it is modelled
  by the record of these values, in the order of the template.
\<close>

record profile_prompt =
  pp_zipCode :: json
  pp_population :: int
  pp_medianAge :: pyfloat
  pp_age_under_18_percent :: pyfloat
  pp_age_65_plus_percent :: pyfloat
  pp_medianIncome :: int
  pp_medianHomeValue :: int
  pp_medianRent :: int
  pp_owner_occupied_percent :: pyfloat
  pp_higher_ed_percent :: pyfloat
  pp_wfh_percent :: pyfloat
  pp_raceWhite :: int
  pp_raceBlack :: int
  pp_raceAsian :: int

text \<open>
  The part of \<^verbatim>\<open>get_gemini_profile\<close> before its \<^verbatim>\<open>try\<close>, where an exception leaves the
  function: the log line with the ZIP code, the five derived percentages in the order of
  the source, then the fields of the prompt from left to right.
\<close>

definition profile_prompt_of :: "demographics \<Rightarrow> error + profile_prompt" where
  "profile_prompt_of data =
     try_bind (format_value (zipCode data)) (\<lambda>logged.
     try_bind (higher_ed_percent data) (\<lambda>v_higher_ed.
     try_bind (owner_occupied_percent data) (\<lambda>v_owner.
     try_bind (wfh_percent data) (\<lambda>v_wfh.
     try_bind (age_under_18_percent data) (\<lambda>v_under_18.
     try_bind (age_65_plus_percent data) (\<lambda>v_65_plus.
     try_bind (format_value (zipCode data)) (\<lambda>t_zip.
     try_bind (format_number (population data)) (\<lambda>t_population.
     try_bind (format_percent v_under_18) (\<lambda>t_under_18.
     try_bind (format_percent v_65_plus) (\<lambda>t_65_plus.
     try_bind (format_currency (medianIncome data)) (\<lambda>t_income.
     try_bind (format_currency (medianHomeValue data)) (\<lambda>t_home.
     try_bind (format_currency (medianRent data)) (\<lambda>t_rent.
     try_bind (format_percent v_owner) (\<lambda>t_owner.
     try_bind (format_percent v_higher_ed) (\<lambda>t_higher_ed.
     try_bind (format_percent v_wfh) (\<lambda>t_wfh.
     try_bind (format_number (raceWhite data)) (\<lambda>t_white.
     try_bind (format_number (raceBlack data)) (\<lambda>t_black.
     try_bind (format_number (raceAsian data)) (\<lambda>t_asian.
       Inr \<lparr> pp_zipCode = t_zip,
             pp_population = t_population,
             pp_medianAge = medianAge data,
             pp_age_under_18_percent = t_under_18,
             pp_age_65_plus_percent = t_65_plus,
             pp_medianIncome = t_income,
             pp_medianHomeValue = t_home,
             pp_medianRent = t_rent,
             pp_owner_occupied_percent = t_owner,
             pp_higher_ed_percent = t_higher_ed,
             pp_wfh_percent = t_wfh,
             pp_raceWhite = t_white,
             pp_raceBlack = t_black,
             pp_raceAsian = t_asian \<rparr>)))))))))))))))))))"

text \<open>The object returned when the \<^verbatim>\<open>try\<close> block of \<^verbatim>\<open>get_gemini_profile\<close> raises.\<close>

definition profile_error :: json where
  "profile_error = JObj [(''error'', JStr ''Failed to generate Gemini profile.'')]"

text \<open>
  \<^verbatim>\<open>get_gemini_profile\<close>. Its \<^verbatim>\<open>try\<close> block (the model call and \<^verbatim>\<open>json.loads\<close> of the reply)
  is the argument \<open>generate\<close>: it raises or gives the decoded reply.
\<close>

definition get_gemini_profile ::
  "(profile_prompt \<Rightarrow> error + json) \<Rightarrow> demographics \<Rightarrow> error + json" where
  "get_gemini_profile generate data =
     try_bind (profile_prompt_of data) (\<lambda>prompt.
       case generate prompt of
         Inr reply \<Rightarrow> Inr reply
       | Inl e \<Rightarrow> Inr profile_error)"

record doppel_prompt =
  dp_zipCode :: json
  dp_count :: int
  dp_medianIncome :: int
  dp_medianHomeValue :: int
  dp_population :: int
  dp_higher_ed_percent :: pyfloat
  dp_owner_occupied_percent :: pyfloat
  dp_medianAge :: pyfloat
  dp_threshold_min :: int
  dp_threshold_max :: int

text \<open>
  The part of \<^verbatim>\<open>find_doppelgangers\<close> before its \<^verbatim>\<open>try\<close>: the log line, the constants, the
  two derived percentages, then the fields of the prompt from left to right (the ZIP code
  stands in the prompt twice).
\<close>

definition doppel_prompt_of :: "demographics \<Rightarrow> error + doppel_prompt" where
  "doppel_prompt_of data =
     try_bind (format_value (zipCode data)) (\<lambda>logged.
     (let count = 5; threshold_min = 85; threshold_max = 100 in
      try_bind (higher_ed_percent data) (\<lambda>v_higher_ed.
      try_bind (owner_occupied_percent data) (\<lambda>v_owner.
      try_bind (format_value (zipCode data)) (\<lambda>t_zip.
      try_bind (format_currency (medianIncome data)) (\<lambda>t_income.
      try_bind (format_currency (medianHomeValue data)) (\<lambda>t_home.
      try_bind (format_number (population data)) (\<lambda>t_population.
      try_bind (format_percent v_higher_ed) (\<lambda>t_higher_ed.
      try_bind (format_percent v_owner) (\<lambda>t_owner.
      try_bind (format_value (zipCode data)) (\<lambda>t_zip_again.
        Inr \<lparr> dp_zipCode = t_zip,
              dp_count = count,
              dp_medianIncome = t_income,
              dp_medianHomeValue = t_home,
              dp_population = t_population,
              dp_higher_ed_percent = t_higher_ed,
              dp_owner_occupied_percent = t_owner,
              dp_medianAge = medianAge data,
              dp_threshold_min = threshold_min,
              dp_threshold_max = threshold_max \<rparr>)))))))))))"

definition doppel_error :: json where
  "doppel_error = JObj [(''error'', JStr ''Failed to find doppelgangers.'')]"

definition find_doppelgangers ::
  "(doppel_prompt \<Rightarrow> error + json) \<Rightarrow> demographics \<Rightarrow> error + json" where
  "find_doppelgangers generate data =
     try_bind (doppel_prompt_of data) (\<lambda>prompt.
       case generate prompt of
         Inr reply \<Rightarrow> Inr reply
       | Inl e \<Rightarrow> Inr doppel_error)"

section \<open>The endpoint\<close>

text \<open>The combined result, the unit that is cached and returned.\<close>

record entry =
  e_demographics :: demographics
  e_profile :: json
  e_doppelgangers :: json

text \<open>
  The collection \<^verbatim>\<open>zip_cache\<close>: its documents by id. A document read back is the document
  that was written. The global \<^verbatim>\<open>db\<close> is \<open>None\<close> when the client failed to initialise
  at start.
\<close>

type_synonym store = "string \<rightharpoonup> entry"

text \<open>
  What lies outside the module during one request: the Census answer for a ZIP code, the
  two model calls, whether the cache read and the cache write raise, and the text
  \<^verbatim>\<open>str\<close> gives for a float, a list or a dict.
\<close>

record world =
  census :: "string \<Rightarrow> upstream"
  profile_model :: "profile_prompt \<Rightarrow> error + json"
  doppel_model :: "doppel_prompt \<Rightarrow> error + json"
  cache_get_fails :: bool
  cache_set_fails :: bool
  str_of_value :: "json \<Rightarrow> string"

datatype http_method = POST | OPTIONS

text \<open>A request: its method, and what \<^verbatim>\<open>request.get_json()\<close> does with its body.\<close>

record request =
  req_method :: http_method
  req_json :: "error + json"

datatype body = Empty | ErrorBody string | EntryBody entry

type_synonym response = "body \<times> nat"

text \<open>\<^verbatim>\<open>key in x\<close> and \<^verbatim>\<open>x[key]\<close> for a string key.\<close>

fun py_contains :: "json \<Rightarrow> string \<Rightarrow> error + bool" where
  "py_contains (JObj kvs) key = Inr (map_of kvs key \<noteq> None)"
| "py_contains (JArr xs) key = Inr (JStr key \<in> set xs)"
| "py_contains (JStr s) key = Inr (str_find key s \<noteq> None)"
| "py_contains _ key = Inl TypeError"

fun py_getkey :: "json \<Rightarrow> string \<Rightarrow> error + json" where
  "py_getkey (JObj kvs) key = (case map_of kvs key of None \<Rightarrow> Inl KeyError | Some v \<Rightarrow> Inr v)"
| "py_getkey _ key = Inl TypeError"

text \<open>
  \<^verbatim>\<open>str(x)\<close>: a string is itself, an integer its decimal digits (a ValueError beyond the
  digit limit); the text of a float, a list or a dict is taken from the world.
\<close>

fun nat_digits :: "nat \<Rightarrow> string" where
  "nat_digits n =
     (if n < 10 then [char_of (48 + n)] else nat_digits (n div 10) @ [char_of (48 + n mod 10)])"

definition py_str :: "world \<Rightarrow> json \<Rightarrow> error + string" where
  "py_str w v =
     (case v of
        JStr s \<Rightarrow> Inr s
      | JInt n \<Rightarrow>
          if str_digits_ok n
          then Inr (if n < 0 then CHR ''-'' # nat_digits (nat (- n)) else nat_digits (nat n))
          else Inl ValueError
      | JBool b \<Rightarrow> Inr (if b then ''True'' else ''False'')
      | JNull \<Rightarrow> Inr ''None''
      | _ \<Rightarrow> if json_ints_ok v then Inr (str_of_value w v) else Inl ValueError)"

definition missing_zip_code :: response where
  "missing_zip_code = (ErrorBody ''Missing 'zip_code' in JSON body'', 400)"

definition no_data_found :: "string \<Rightarrow> response" where
  "no_data_found zip_code =
     (ErrorBody (''No demographic data found for ZIP code '' @ zip_code @ ''.''), 404)"

definition internal_error :: response where
  "internal_error = (ErrorBody ''An internal server error occurred.'', 500)"

text \<open>
  \<^verbatim>\<open>jsonify\<close> of a combined result: the JSON encoder writes every integer in decimal, so
  it raises a ValueError on an integer beyond the digit limit. The counts of the
  dictionary \<^verbatim>\<open>demographics\<close> are listed in its order. The error bodies are strings and
  always serialise.
\<close>

definition demographics_counts :: "demographics \<Rightarrow> int list" where
  "demographics_counts d =
     [population d, medianIncome d, raceWhite d, raceBlack d, raceNative d, raceAsian d,
      educationPopulation d, educationBachelors d, educationGraduate d, medianHomeValue d,
      medianRent d, housingUnits d, ownerOccupied d, renterOccupied d, ageUnder18 d,
      age18to64 d, age65plus d, commuteTotal d, commuteDrive d, commutePublic d,
      commuteWfh d]"

definition entry_serialisable :: "entry \<Rightarrow> bool" where
  "entry_serialisable e =
     (json_ints_ok (name (e_demographics e))
      \<and> list_all str_digits_ok (demographics_counts (e_demographics e))
      \<and> json_ints_ok (zipCode (e_demographics e))
      \<and> json_ints_ok (e_profile e)
      \<and> json_ints_ok (e_doppelgangers e))"

definition jsonify :: "entry \<Rightarrow> error + body" where
  "jsonify e = (if entry_serialisable e then Inr (EntryBody e) else Inl ValueError)"

text \<open>
  Step 1 of \<^verbatim>\<open>handle_find_twin\<close>: the body is decoded and checked. The result is the 400
  response, or \<^verbatim>\<open>zip_code\<close>.
\<close>

definition requested_zip :: "world \<Rightarrow> request \<Rightarrow> error + (response + string)" where
  "requested_zip w req =
     try_bind (req_json req) (\<lambda>data.
       if \<not> truthy data then Inr (Inl missing_zip_code)
       else try_bind (py_contains data ''zip_code'') (\<lambda>present.
         if \<not> present then Inr (Inl missing_zip_code)
         else try_bind (py_getkey data ''zip_code'') (\<lambda>v.
              try_bind (py_str w v) (\<lambda>zip_code. Inr (Inr zip_code)))))"

text \<open>
  The cache check, under \<^verbatim>\<open>if db:\<close>. The read stands directly in the \<^verbatim>\<open>try\<close> block of the
  endpoint, so an exception of the read leaves the check.
\<close>

definition cache_lookup :: "world \<Rightarrow> store option \<Rightarrow> string \<Rightarrow> error + entry option" where
  "cache_lookup w db zip_code =
     (case db of
        None \<Rightarrow> Inr None
      | Some s \<Rightarrow> if cache_get_fails w then Inl StoreError else Inr (s zip_code))"

text \<open>
  The cache write, under the second \<^verbatim>\<open>if db:\<close>. It has a handler of its own, which logs
  and goes on.
\<close>

definition cache_save :: "world \<Rightarrow> store option \<Rightarrow> string \<Rightarrow> entry \<Rightarrow> store option" where
  "cache_save w db zip_code final_result =
     (case db of
        None \<Rightarrow> None
      | Some s \<Rightarrow> if cache_set_fails w then Some s else Some (s(zip_code \<mapsto> final_result)))"

text \<open>
  The rest of the \<^verbatim>\<open>try\<close> block, from the cache check on: the response or the exception
  that leaves the block, and the cache at that point. The cache is written before the
  fresh result is serialised.
\<close>

definition lookup_twin ::
  "world \<Rightarrow> store option \<Rightarrow> string \<Rightarrow> (error + response) \<times> store option" where
  "lookup_twin w db zip_code =
     (case cache_lookup w db zip_code of
        Inl e \<Rightarrow> (Inl e, db)
      | Inr (Some doc) \<Rightarrow> (try_bind (jsonify doc) (\<lambda>b. Inr (b, 200)), db)
      | Inr None \<Rightarrow>
          (case fetch_census_demographics (census w zip_code) zip_code of
             None \<Rightarrow> (Inr (no_data_found zip_code), db)
           | Some demographics \<Rightarrow>
               (case get_gemini_profile (profile_model w) demographics of
                  Inl e \<Rightarrow> (Inl e, db)
                | Inr profile \<Rightarrow>
                    (case find_doppelgangers (doppel_model w) demographics of
                       Inl e \<Rightarrow> (Inl e, db)
                     | Inr doppelgangers \<Rightarrow>
                         (let final_result = \<lparr> e_demographics = demographics,
                                              e_profile = profile,
                                              e_doppelgangers = doppelgangers \<rparr>
                          in (try_bind (jsonify final_result) (\<lambda>b. Inr (b, 200)),
                              cache_save w db zip_code final_result))))))"

text \<open>
  \<^verbatim>\<open>handle_find_twin\<close>: the response, and the cache after the request. The handler
  \<^verbatim>\<open>except Exception\<close> of the endpoint answers 500.
\<close>

definition handle_find_twin :: "world \<Rightarrow> store option \<Rightarrow> request \<Rightarrow> response \<times> store option" where
  "handle_find_twin w db req =
     (if req_method req = OPTIONS then ((Empty, 200), db)
      else (case requested_zip w req of
              Inl e \<Rightarrow> (internal_error, db)
            | Inr (Inl bad_request) \<Rightarrow> (bad_request, db)
            | Inr (Inr zip_code) \<Rightarrow>
                (case lookup_twin w db zip_code of
                   (Inl e, db') \<Rightarrow> (internal_error, db')
                 | (Inr result, db') \<Rightarrow> (result, db'))))"

section \<open>Concrete inputs\<close>

text \<open>
  A Census answer for ZIP code 90210: population 20000, 3000 under 18, and 5000 in the
  brackets of 65 and over.
\<close>

definition scenario_headers :: json where
  "scenario_headers =
     JArr [JStr ''NAME'', JStr ''B01003_001E'', JStr ''B01002_001E'', JStr ''B09001_001E'',
           JStr ''B01001_020E'', JStr ''B01001_044E'', JStr ''B19013_001E'',
           JStr ''B15003_001E'', JStr ''B15003_022E'', JStr ''B15003_023E'',
           JStr ''B15003_024E'', JStr ''B15003_025E'', JStr ''zip code tabulation area'']"

definition scenario_values :: json where
  "scenario_values =
     JArr [JStr ''ZCTA5 90210'', JStr ''20000'', JStr ''45.5'', JStr ''3000'',
           JStr ''2000'', JStr ''3000'', JStr ''150000'',
           JStr ''15000'', JStr ''6000'', JStr ''1200'',
           JStr ''300'', JStr ''150'', JStr ''90210'']"

definition scenario_payload :: json where
  "scenario_payload = JArr [scenario_headers, scenario_values]"

definition scenario_record :: demographics where
  "scenario_record =
     \<lparr> name = JStr ''ZCTA5 90210'', population = 20000, medianIncome = 150000,
       medianAge = Finite (91 / 2), raceWhite = 0, raceBlack = 0, raceNative = 0,
       raceAsian = 0, educationPopulation = 15000, educationBachelors = 6000,
       educationGraduate = 1650, medianHomeValue = 0, medianRent = 0, housingUnits = 0,
       ownerOccupied = 0, renterOccupied = 0, ageUnder18 = 3000, age18to64 = 12000,
       age65plus = 5000, commuteTotal = 0, commuteDrive = 0, commutePublic = 0,
       commuteWfh = 0, zipCode = JStr ''90210'' \<rparr>"

text \<open>The same row with a median age that is text and not a number.\<close>

definition suppressed_age_headers :: json where
  "suppressed_age_headers = JArr [JStr ''NAME'', JStr ''B01003_001E'', JStr ''B01002_001E'']"

definition suppressed_age_values :: json where
  "suppressed_age_values = JArr [JStr ''ZCTA5 90210'', JStr ''20000'', JStr ''N/A'']"

definition suppressed_age_payload :: json where
  "suppressed_age_payload = JArr [suppressed_age_headers, suppressed_age_values]"

text \<open>A row whose age bands exceed its population.\<close>

definition inconsistent_payload :: json where
  "inconsistent_payload =
     JArr [JArr [JStr ''B01003_001E'', JStr ''B09001_001E'', JStr ''B01001_020E''],
           JArr [JStr ''100'', JStr ''80'', JStr ''50'']]"

definition inconsistent_record :: demographics where
  "inconsistent_record =
     \<lparr> name = JStr [], population = 100, medianIncome = 0,
       medianAge = Finite 0, raceWhite = 0, raceBlack = 0, raceNative = 0,
       raceAsian = 0, educationPopulation = 0, educationBachelors = 0,
       educationGraduate = 0, medianHomeValue = 0, medianRent = 0, housingUnits = 0,
       ownerOccupied = 0, renterOccupied = 0, ageUnder18 = 80, age18to64 = - 30,
       age65plus = 50, commuteTotal = 0, commuteDrive = 0, commutePublic = 0,
       commuteWfh = 0, zipCode = JStr ''90210'' \<rparr>"

text \<open>The record of a row that has none of the columns: every count is 0.\<close>

definition blank_record :: demographics where
  "blank_record =
     \<lparr> name = JStr [], population = 0, medianIncome = 0,
       medianAge = Finite 0, raceWhite = 0, raceBlack = 0, raceNative = 0,
       raceAsian = 0, educationPopulation = 0, educationBachelors = 0,
       educationGraduate = 0, medianHomeValue = 0, medianRent = 0, housingUnits = 0,
       ownerOccupied = 0, renterOccupied = 0, ageUnder18 = 0, age18to64 = 0,
       age65plus = 0, commuteTotal = 0, commuteDrive = 0, commutePublic = 0,
       commuteWfh = 0, zipCode = JStr ''00000'' \<rparr>"

text \<open>A payload that is the header row alone.\<close>

definition header_only_payload :: json where
  "header_only_payload = JArr [JArr [JStr ''NAME'', JStr ''B01003_001E'']]"

text \<open>A row with a population column written with a decimal point.\<close>

definition decimal_headers :: json where
  "decimal_headers = JArr [JStr ''B01003_001E'']"

definition decimal_values :: json where
  "decimal_values = JArr [JStr ''25.5'']"

text \<open>A row with a population cell that is the JSON number 25.5.\<close>

definition number_values :: json where
  "number_values = JArr [JFloat (Finite (51 / 2))]"

text \<open>
  A row whose median household income is the text of \<open>10 ^ 309\<close>, a 1 followed by 309
  zeros, and the record the extractor gives for it.
\<close>

definition one_and_zeros :: string where
  "one_and_zeros = CHR ''1'' # replicate 309 (CHR ''0'')"

definition large_income_payload :: json where
  "large_income_payload = JArr [JArr [JStr ''B19013_001E''], JArr [JStr one_and_zeros]]"

definition large_income_record :: demographics where
  "large_income_record = blank_record \<lparr> medianIncome := 10 ^ 309, zipCode := JStr ''90210'' \<rparr>"

text \<open>
  A row whose master's and professional degree counts are each the text of 4300 nines,
  the longest text \<^verbatim>\<open>int\<close> accepts, and the record the extractor gives for it: their sum
  has 4301 digits.
\<close>

definition nines :: string where
  "nines = replicate max_str_digits (CHR ''9'')"

definition long_counts_payload :: json where
  "long_counts_payload =
     JArr [JArr [JStr ''B15003_023E'', JStr ''B15003_024E''], JArr [JStr nines, JStr nines]]"

definition long_counts_record :: demographics where
  "long_counts_record =
     blank_record \<lparr> educationGraduate := 2 * (10 ^ max_str_digits - 1),
                    zipCode := JStr ''90210'' \<rparr>"

text \<open>Replies of the model, and worlds built from them.\<close>

definition sample_profile :: json where
  "sample_profile =
     JObj [(''whoAreWe'', JStr ''An affluent community.''),
           (''ourNeighborhood'', JArr [JStr ''Single-family homes'']),
           (''socioeconomicTraits'', JArr [JStr ''High income''])]"

definition sample_doppelgangers :: json where
  "sample_doppelgangers =
     JArr [JObj [(''zipCode'', JStr ''10583''), (''city'', JStr ''Scarsdale''),
                 (''state'', JStr ''NY''), (''similarityReason'', JStr ''Similar income.''),
                 (''similarityPercentage'', JInt 92)]]"

definition steady_world :: world where
  "steady_world =
     \<lparr> census = (\<lambda>zip_code. Payload scenario_payload),
       profile_model = (\<lambda>prompt. Inr sample_profile),
       doppel_model = (\<lambda>prompt. Inr sample_doppelgangers),
       cache_get_fails = False,
       cache_set_fails = False,
       str_of_value = (\<lambda>v. []) \<rparr>"

definition read_failure_world :: world where
  "read_failure_world = steady_world \<lparr> cache_get_fails := True \<rparr>"

definition profile_down_world :: world where
  "profile_down_world = steady_world \<lparr> profile_model := (\<lambda>prompt. Inl ModelError) \<rparr>"

definition large_income_world :: world where
  "large_income_world =
     steady_world \<lparr> census := (\<lambda>zip_code. Payload large_income_payload),
                    profile_model := (\<lambda>prompt. Inl ModelError) \<rparr>"

definition long_counts_world :: world where
  "long_counts_world =
     steady_world \<lparr> census := (\<lambda>zip_code. Payload long_counts_payload),
                    profile_model := (\<lambda>prompt. Inl ModelError) \<rparr>"

definition outage_world :: world where
  "outage_world =
     \<lparr> census = (\<lambda>zip_code. HttpFailure),
       profile_model = (\<lambda>prompt. Inl ModelError),
       doppel_model = (\<lambda>prompt. Inl ModelError),
       cache_get_fails = False,
       cache_set_fails = True,
       str_of_value = (\<lambda>v. []) \<rparr>"

definition empty_store :: store where
  "empty_store = Map.empty"

definition zip_request :: "string \<Rightarrow> request" where
  "zip_request zip_code =
     \<lparr> req_method = POST, req_json = Inr (JObj [(''zip_code'', JStr zip_code)]) \<rparr>"

definition scenario_entry :: entry where
  "scenario_entry =
     \<lparr> e_demographics = scenario_record,
       e_profile = sample_profile,
       e_doppelgangers = sample_doppelgangers \<rparr>"

definition degraded_entry :: entry where
  "degraded_entry =
     \<lparr> e_demographics = scenario_record,
       e_profile = profile_error,
       e_doppelgangers = sample_doppelgangers \<rparr>"

section \<open>Evaluation lemmas\<close>

lemma try_bind_Inr: "(try_bind m f = Inr y) = (\<exists>x. m = Inr x \<and> f x = Inr y)"
  by (cases m) (simp_all add: try_bind_def)

text \<open>Values far inside the float range and the digit limit.\<close>

lemma float_overflow_large: "2 ^ 64 \<le> float_overflow"
  by (simp add: float_overflow_def)

lemma float_overflow_below: "float_overflow \<le> 10 ^ 309"
  by (simp add: float_overflow_def)

lemma float_overflow_pos: "\<not> float_overflow \<le> 0"
  using float_overflow_large by auto

lemma to_float_small: "\<bar>r\<bar> < 2 ^ 64 \<Longrightarrow> to_float r = Finite r"
  using float_overflow_large by (auto simp add: to_float_def)

lemma str_digits_ok_small: "\<bar>n\<bar> < 10 ^ 18 \<Longrightarrow> str_digits_ok n"
proof -
  assume "\<bar>n\<bar> < 10 ^ 18"
  moreover have "(10::int) ^ 18 \<le> 10 ^ max_str_digits"
    by (rule power_increasing) (simp_all add: max_str_digits_def)
  ultimately show ?thesis by (simp add: str_digits_ok_def)
qed

lemma py_float_int_small: "\<bar>n\<bar> < 2 ^ 64 \<Longrightarrow> py_float (JInt n) = Inr (Finite (of_int n))"
proof -
  assume a: "\<bar>n\<bar> < 2 ^ 64"
  then have "\<bar>of_int n :: rat\<bar> < 2 ^ 64"
    by (metis of_int_abs of_int_less_iff of_int_numeral of_int_power)
  with float_overflow_large show ?thesis by simp
qed

lemma format_currency_small: "\<bar>n\<bar> < 2 ^ 64 \<Longrightarrow> format_currency n = Inr n"
  using py_float_int_small[of n] by (simp add: format_currency_def try_bind_def)

lemma format_number_small: "\<bar>n\<bar> < 10 ^ 18 \<Longrightarrow> format_number n = Inr n"
  using str_digits_ok_small[of n] by (simp add: format_number_def)

lemma py_truediv_small:
  assumes "b \<noteq> 0" and "\<bar>a\<bar> < 2 ^ 64"
  shows "py_truediv a b = Inr (Finite (of_int a / of_int b))"
proof -
  have "1 \<le> \<bar>b\<bar>" using assms(1) by arith
  then have "(1::rat) \<le> of_int \<bar>b\<bar>" by (metis of_int_1 of_int_le_iff)
  then have b1: "\<bar>of_int b :: rat\<bar> \<ge> 1" by simp
  have "\<bar>of_int a :: rat\<bar> * 1 \<le> \<bar>of_int a\<bar> * \<bar>of_int b\<bar>"
    by (rule mult_left_mono) (use b1 in simp_all)
  then have "\<bar>(of_int a :: rat) / of_int b\<bar> \<le> \<bar>of_int a\<bar>"
    using assms(1) by (simp add: abs_divide divide_le_eq)
  moreover have "\<bar>of_int a :: rat\<bar> < 2 ^ 64" using assms(2)
    by (metis of_int_abs of_int_less_iff of_int_numeral of_int_power)
  ultimately have "\<bar>(of_int a :: rat) / of_int b\<bar> < float_overflow"
    using float_overflow_large by linarith
  with assms(1) show ?thesis by (simp add: py_truediv_def)
qed

lemmas parse_defs = int_of_str_def strip_def take_sign_def digitpart_def is_space_def
  is_digit_def digit_val_def float_of_str_def decimal_value_def mantissa_def exponent_def
  scale10_def lower_char_def is_exp_mark_def is_point_def count_digits_def
  max_str_digits_def to_float_small float_overflow_pos

lemmas census_defs = fetch_census_demographics_def census_try_def build_demographics_def
  education_graduate_of_def age_65_fields_def get_value_def get_string_value_def
  try_bind_def caught_def py_or_def

lemma scenario_fetch:
  "fetch_census_demographics (Payload scenario_payload) ''90210'' = Some scenario_record"
  by (simp add: census_defs parse_defs scenario_payload_def scenario_headers_def
      scenario_values_def scenario_record_def)

lemma inconsistent_fetch:
  "fetch_census_demographics (Payload inconsistent_payload) ''90210'' = Some inconsistent_record"
  by (simp add: census_defs parse_defs inconsistent_payload_def inconsistent_record_def)

section \<open>The extractor: what a returned record satisfies\<close>

lemma fetch_Some:
  assumes "fetch_census_demographics up zip_code = Some d"
  shows "\<exists>data headers values. up = Payload data \<and> py_getitem data 0 = Inr headers
           \<and> py_getitem data 1 = Inr values
           \<and> build_demographics headers values zip_code = Inr d"
  using assms unfolding fetch_census_demographics_def census_try_def
  by (auto simp add: try_bind_Inr split: upstream.splits sum.splits if_splits)

lemma build_age_bands:
  assumes "build_demographics headers values zip_code = Inr d"
  shows "\<exists>p u g. get_value headers values ''B01003_001E'' = Inr p
           \<and> get_value headers values ''B09001_001E'' = Inr u
           \<and> try_map (get_value headers values) age_65_fields = Inr g
           \<and> population d = p \<and> ageUnder18 d = u \<and> age65plus d = sum_list g
           \<and> age18to64 d = p - u - sum_list g"
  using assms unfolding build_demographics_def
  by (auto simp add: try_bind_Inr)

lemma build_education:
  assumes "build_demographics headers values zip_code = Inr d"
  shows "education_graduate_of headers values = Inr (educationGraduate d)"
  using assms unfolding build_demographics_def
  by (auto simp add: try_bind_Inr)

lemma age_65_groups:
  assumes "try_map (get_value headers values) age_65_fields = Inr g"
  shows "\<exists>m65 m67 m70 m75 m80 m85 f65 f67 f70 f75 f80 f85.
      get_value headers values ''B01001_020E'' = Inr m65 \<and>
      get_value headers values ''B01001_021E'' = Inr m67 \<and>
      get_value headers values ''B01001_022E'' = Inr m70 \<and>
      get_value headers values ''B01001_023E'' = Inr m75 \<and>
      get_value headers values ''B01001_024E'' = Inr m80 \<and>
      get_value headers values ''B01001_025E'' = Inr m85 \<and>
      get_value headers values ''B01001_044E'' = Inr f65 \<and>
      get_value headers values ''B01001_045E'' = Inr f67 \<and>
      get_value headers values ''B01001_046E'' = Inr f70 \<and>
      get_value headers values ''B01001_047E'' = Inr f75 \<and>
      get_value headers values ''B01001_048E'' = Inr f80 \<and>
      get_value headers values ''B01001_049E'' = Inr f85 \<and>
      sum_list g = m65 + m67 + m70 + m75 + m80 + m85 + f65 + f67 + f70 + f75 + f80 + f85"
  using assms unfolding age_65_fields_def
  by (auto simp add: try_bind_Inr)

text \<open>
  Claim C3. Every record the extractor returns has age bands that add up to its
  population: \<open>ageUnder18 + age18to64 + age65plus = population\<close>. The middle band is
  computed as the remainder, so the equation holds whatever the source columns say.
\<close>

theorem age_bands_partition:
  assumes "fetch_census_demographics up zip_code = Some d"
  shows "ageUnder18 d + age18to64 d + age65plus d = population d"
proof -
  from fetch_Some[OF assms] obtain headers vals where
    "build_demographics headers vals zip_code = Inr d" by blast
  from build_age_bands[OF this] show ?thesis by auto
qed

theorem age_bands_partition_witness:
  "fetch_census_demographics (Payload scenario_payload) ''90210'' = Some scenario_record
   \<and> ageUnder18 scenario_record + age18to64 scenario_record + age65plus scenario_record
       = population scenario_record
   \<and> population scenario_record = 20000"
  using age_bands_partition[OF scenario_fetch] scenario_fetch
  by (simp add: scenario_record_def)

text \<open>
  Claim C4. In every record the extractor returns, \<open>age65plus\<close> is the sum of what
  \<open>get_value\<close> gives for exactly twelve columns, the six male brackets
  \<open>B01001_020E\<close> to \<open>B01001_025E\<close> and the six female brackets \<open>B01001_044E\<close> to
  \<open>B01001_049E\<close>, and \<open>age18to64\<close> is \<open>population - ageUnder18 - age65plus\<close> on the
  integers, with no clamping. The instance below is a row whose bands exceed its
  population: its \<open>age18to64\<close> is negative.
\<close>

theorem age_bands_derivation:
  assumes "fetch_census_demographics up zip_code = Some d"
  shows "\<exists>data headers values m65 m67 m70 m75 m80 m85 f65 f67 f70 f75 f80 f85.
      up = Payload data \<and>
      py_getitem data 0 = Inr headers \<and>
      py_getitem data 1 = Inr values \<and>
      get_value headers values ''B01001_020E'' = Inr m65 \<and>
      get_value headers values ''B01001_021E'' = Inr m67 \<and>
      get_value headers values ''B01001_022E'' = Inr m70 \<and>
      get_value headers values ''B01001_023E'' = Inr m75 \<and>
      get_value headers values ''B01001_024E'' = Inr m80 \<and>
      get_value headers values ''B01001_025E'' = Inr m85 \<and>
      get_value headers values ''B01001_044E'' = Inr f65 \<and>
      get_value headers values ''B01001_045E'' = Inr f67 \<and>
      get_value headers values ''B01001_046E'' = Inr f70 \<and>
      get_value headers values ''B01001_047E'' = Inr f75 \<and>
      get_value headers values ''B01001_048E'' = Inr f80 \<and>
      get_value headers values ''B01001_049E'' = Inr f85 \<and>
      get_value headers values ''B01003_001E'' = Inr (population d) \<and>
      get_value headers values ''B09001_001E'' = Inr (ageUnder18 d) \<and>
      age65plus d = m65 + m67 + m70 + m75 + m80 + m85 + f65 + f67 + f70 + f75 + f80 + f85 \<and>
      age18to64 d = population d - ageUnder18 d - age65plus d"
proof -
  from fetch_Some[OF assms] obtain data headers vals where
    rows: "up = Payload data" "py_getitem data 0 = Inr headers" "py_getitem data 1 = Inr vals"
    and built: "build_demographics headers vals zip_code = Inr d" by blast
  from build_age_bands[OF built] obtain g where
    pop: "get_value headers vals ''B01003_001E'' = Inr (population d)"
    and u18: "get_value headers vals ''B09001_001E'' = Inr (ageUnder18 d)"
    and groups: "try_map (get_value headers vals) age_65_fields = Inr g"
    and a65: "age65plus d = sum_list g"
    and mid: "age18to64 d = population d - ageUnder18 d - sum_list g" by auto
  from age_65_groups[OF groups] a65 mid rows pop u18 show ?thesis
    by (elim exE conjE) (intro exI conjI, assumption+, simp_all)
qed

theorem age_bands_derivation_witness:
  "(\<exists>data headers values m65 m67 m70 m75 m80 m85 f65 f67 f70 f75 f80 f85.
      Payload inconsistent_payload = Payload data \<and>
      py_getitem data 0 = Inr headers \<and>
      py_getitem data 1 = Inr values \<and>
      get_value headers values ''B01001_020E'' = Inr m65 \<and>
      get_value headers values ''B01001_021E'' = Inr m67 \<and>
      get_value headers values ''B01001_022E'' = Inr m70 \<and>
      get_value headers values ''B01001_023E'' = Inr m75 \<and>
      get_value headers values ''B01001_024E'' = Inr m80 \<and>
      get_value headers values ''B01001_025E'' = Inr m85 \<and>
      get_value headers values ''B01001_044E'' = Inr f65 \<and>
      get_value headers values ''B01001_045E'' = Inr f67 \<and>
      get_value headers values ''B01001_046E'' = Inr f70 \<and>
      get_value headers values ''B01001_047E'' = Inr f75 \<and>
      get_value headers values ''B01001_048E'' = Inr f80 \<and>
      get_value headers values ''B01001_049E'' = Inr f85 \<and>
      get_value headers values ''B01003_001E'' = Inr (population inconsistent_record) \<and>
      get_value headers values ''B09001_001E'' = Inr (ageUnder18 inconsistent_record) \<and>
      age65plus inconsistent_record
        = m65 + m67 + m70 + m75 + m80 + m85 + f65 + f67 + f70 + f75 + f80 + f85 \<and>
      age18to64 inconsistent_record
        = population inconsistent_record - ageUnder18 inconsistent_record
          - age65plus inconsistent_record)
   \<and> fetch_census_demographics (Payload inconsistent_payload) ''90210'' = Some inconsistent_record
   \<and> age18to64 inconsistent_record = - 30"
  using age_bands_derivation[OF inconsistent_fetch] inconsistent_fetch
  by (simp add: inconsistent_record_def)

text \<open>
  Claim C5. In every record the extractor returns, \<open>educationGraduate\<close> is exactly the
  sum of what \<open>get_value\<close> gives for the master's (\<open>B15003_023E\<close>), professional
  (\<open>B15003_024E\<close>) and doctorate (\<open>B15003_025E\<close>) columns. The instances are the
  scenario row and a row without these columns, where all three are 0.
\<close>

theorem education_graduate_sum:
  assumes "fetch_census_demographics up zip_code = Some d"
  shows "\<exists>data headers values masters professional doctorate.
      up = Payload data \<and>
      py_getitem data 0 = Inr headers \<and>
      py_getitem data 1 = Inr values \<and>
      get_value headers values ''B15003_023E'' = Inr masters \<and>
      get_value headers values ''B15003_024E'' = Inr professional \<and>
      get_value headers values ''B15003_025E'' = Inr doctorate \<and>
      educationGraduate d = masters + professional + doctorate"
proof -
  from fetch_Some[OF assms] obtain data headers vals where
    rows: "up = Payload data" "py_getitem data 0 = Inr headers" "py_getitem data 1 = Inr vals"
    and built: "build_demographics headers vals zip_code = Inr d" by blast
  from build_education[OF built] have
    "\<exists>masters professional doctorate.
       get_value headers vals ''B15003_023E'' = Inr masters \<and>
       get_value headers vals ''B15003_024E'' = Inr professional \<and>
       get_value headers vals ''B15003_025E'' = Inr doctorate \<and>
       educationGraduate d = masters + professional + doctorate"
    by (auto simp add: education_graduate_of_def try_bind_Inr)
  with rows show ?thesis by blast
qed

theorem education_graduate_sum_witness:
  "(\<exists>data headers values masters professional doctorate.
      Payload scenario_payload = Payload data \<and>
      py_getitem data 0 = Inr headers \<and>
      py_getitem data 1 = Inr values \<and>
      get_value headers values ''B15003_023E'' = Inr masters \<and>
      get_value headers values ''B15003_024E'' = Inr professional \<and>
      get_value headers values ''B15003_025E'' = Inr doctorate \<and>
      educationGraduate scenario_record = masters + professional + doctorate)
   \<and> educationGraduate scenario_record = 1650
   \<and> (\<exists>data headers values masters professional doctorate.
      Payload inconsistent_payload = Payload data \<and>
      py_getitem data 0 = Inr headers \<and>
      py_getitem data 1 = Inr values \<and>
      get_value headers values ''B15003_023E'' = Inr masters \<and>
      get_value headers values ''B15003_024E'' = Inr professional \<and>
      get_value headers values ''B15003_025E'' = Inr doctorate \<and>
      educationGraduate inconsistent_record = masters + professional + doctorate)
   \<and> educationGraduate inconsistent_record = 0"
  using education_graduate_sum[OF scenario_fetch] education_graduate_sum[OF inconsistent_fetch]
  by (simp add: scenario_record_def inconsistent_record_def)

section \<open>The extractor: the defaults of \<open>get_value\<close> and integer parsing\<close>

lemma digits_from_chars:
  "digits_from acc s = Some n \<Longrightarrow> c \<in> set s \<Longrightarrow> is_digit c \<or> c = CHR ''_''"
  by (induction acc s rule: digits_from.induct) (auto split: if_splits list.splits)

lemma digitpart_chars:
  "digitpart s = Some n \<Longrightarrow> c \<in> set s \<Longrightarrow> is_digit c \<or> c = CHR ''_''"
  by (auto simp add: digitpart_def split: list.splits if_splits dest: digits_from_chars)

lemma take_sign_chars:
  "take_sign s = (sg, rest) \<Longrightarrow> c \<in> set s \<Longrightarrow> c \<in> set rest \<or> c = CHR ''-'' \<or> c = CHR ''+''"
  by (auto simp add: take_sign_def split: list.splits if_splits)

lemma dropWhile_keeps: "c \<in> set xs \<Longrightarrow> \<not> P c \<Longrightarrow> c \<in> set (dropWhile P xs)"
  by (induction xs) auto

lemma strip_chars: "c \<in> set s \<Longrightarrow> \<not> is_space c \<Longrightarrow> c \<in> set (strip s)"
proof -
  assume c: "c \<in> set s" and ns: "\<not> is_space c"
  from c ns have "c \<in> set (rev (dropWhile is_space s))"
    by (simp add: dropWhile_keeps)
  from this ns have "c \<in> set (dropWhile is_space (rev (dropWhile is_space s)))"
    by (rule dropWhile_keeps)
  then show ?thesis by (simp add: strip_def)
qed

text \<open>
  A string that \<open>int\<close> accepts consists of whitespace, signs, digits and underscores.
\<close>

lemma int_of_str_chars:
  assumes "int_of_str s = Some n" and "c \<in> set s"
  shows "is_space c \<or> is_digit c \<or> c = CHR ''_'' \<or> c = CHR ''-'' \<or> c = CHR ''+''"
proof (cases "is_space c")
  case True
  then show ?thesis by simp
next
  case False
  obtain sg rest where ts: "take_sign (strip s) = (sg, rest)"
    by (cases "take_sign (strip s)")
  from assms(1) ts obtain k where dp: "digitpart rest = Some k"
    by (auto simp add: int_of_str_def split: option.splits if_splits)
  have "c \<in> set (strip s)" using assms(2) False by (rule strip_chars)
  with ts have "c \<in> set rest \<or> c = CHR ''-'' \<or> c = CHR ''+''" by (rule take_sign_chars)
  with dp show ?thesis by (auto dest: digitpart_chars)
qed

lemma int_of_str_point: "CHR ''.'' \<in> set s \<Longrightarrow> int_of_str s = None"
proof (rule ccontr)
  assume p: "CHR ''.'' \<in> set s" and "int_of_str s \<noteq> None"
  then obtain n where "int_of_str s = Some n" by auto
  from int_of_str_chars[OF this p] show False
    by (simp add: is_space_def is_digit_def)
qed

lemma get_value_of_string:
  assumes "py_index headers field_name = Inr i" and "py_getitem values i = Inr (JStr s)"
  shows "get_value headers values field_name
           = Inr (case int_of_str s of None \<Rightarrow> 0 | Some n \<Rightarrow> n)"
  using assms by (simp add: get_value_def try_bind_def caught_def split: option.splits)

text \<open>
  On a header row and a data row that are lists, \<open>get_value\<close> gives 0 for a column that
  is missing, for a position beyond the data row, for \<^verbatim>\<open>null\<close>, and for text that is not
  an integer; \<open>get_string_value\<close> gives the empty string for the first two.
\<close>

lemma get_value_missing:
  "index_of (JStr field_name) hs = None \<Longrightarrow> get_value (JArr hs) vs field_name = Inr 0"
  by (simp add: get_value_def try_bind_def caught_def)

lemma get_value_out_of_bounds:
  "index_of (JStr field_name) hs = Some i \<Longrightarrow> length vs \<le> i \<Longrightarrow>
   get_value (JArr hs) (JArr vs) field_name = Inr 0"
  by (simp add: get_value_def try_bind_def caught_def)

lemma get_value_null:
  "index_of (JStr field_name) hs = Some i \<Longrightarrow> i < length vs \<Longrightarrow> vs ! i = JNull \<Longrightarrow>
   get_value (JArr hs) (JArr vs) field_name = Inr 0"
  by (simp add: get_value_def try_bind_def caught_def)

lemma get_string_value_missing:
  "index_of (JStr field_name) hs = None \<Longrightarrow>
   get_string_value (JArr hs) vs field_name = Inr (JStr [])"
  by (simp add: get_string_value_def try_bind_def caught_def)

lemma get_string_value_out_of_bounds:
  "index_of (JStr field_name) hs = Some i \<Longrightarrow> length vs \<le> i \<Longrightarrow>
   get_string_value (JArr hs) (JArr vs) field_name = Inr (JStr [])"
  by (simp add: get_string_value_def try_bind_def caught_def)

text \<open>The separators 28 to 31 are not skipped, and a text beyond the digit limit is refused.\<close>

lemma int_of_str_separator: "int_of_str (CHR 0x1C # ''42'') = None"
  by (simp add: parse_defs)

lemma strip_id:
  assumes "s \<noteq> []" and "\<not> is_space (hd s)" and "\<not> is_space (last s)"
  shows "strip s = s"
proof -
  from assms(2) have "dropWhile is_space s = s"
    by (simp add: dropWhile_eq_self_iff)
  moreover from assms(1,3) have "dropWhile is_space (rev s) = rev s"
    by (simp add: dropWhile_eq_self_iff hd_rev)
  ultimately show ?thesis by (simp add: strip_def)
qed

lemma int_of_str_too_long:
  assumes "max_str_digits < count_digits s" and "\<forall>c \<in> set s. \<not> is_space c"
  shows "int_of_str s = None"
proof -
  from assms(1) have "s \<noteq> []" by (auto simp add: count_digits_def)
  with assms(2) have "strip s = s" by (intro strip_id) simp_all
  moreover obtain sg rest where ts: "take_sign s = (sg, rest)" by (cases "take_sign s")
  moreover have "count_digits s = count_digits rest"
    using ts by (auto simp add: take_sign_def count_digits_def is_digit_def
        split: list.splits if_splits)
  ultimately show ?thesis using assms(1)
    by (simp add: int_of_str_def split: option.splits)
qed

text \<open>
  Claim C10, as amended. \<open>get_value\<close> converts a cell with \<open>int\<close>. For a cell that is
  text the parsing is strict: where \<open>int\<close> rejects the text the field is 0, in particular
  for every text with a decimal point, such as \<open>25.5\<close>; where \<open>int\<close> accepts it the field
  is that integer. A cell that is a JSON number is not text: an integer is taken as it
  is, and a fractional number is truncated towards zero, so the number 25.5 gives 25.
\<close>

theorem get_value_cell_conversion:
  assumes "py_index headers field_name = Inr i"
  shows "(\<forall>s. py_getitem values i = Inr (JStr s) \<longrightarrow>
            (int_of_str s = None \<longrightarrow> get_value headers values field_name = Inr 0)
          \<and> (CHR ''.'' \<in> set s \<longrightarrow> get_value headers values field_name = Inr 0)
          \<and> (\<forall>n. int_of_str s = Some n \<longrightarrow> get_value headers values field_name = Inr n))
       \<and> (\<forall>r. py_getitem values i = Inr (JFloat (Finite r)) \<longrightarrow>
            get_value headers values field_name = Inr (trunc_rat r))
       \<and> (\<forall>n. py_getitem values i = Inr (JInt n) \<longrightarrow>
            get_value headers values field_name = Inr n)"
proof (intro conjI allI impI)
  fix s assume "py_getitem values i = Inr (JStr s)"
  note text_cell = get_value_of_string[OF assms this]
  { assume "int_of_str s = None"
    with text_cell show "get_value headers values field_name = Inr 0" by simp }
  { assume "CHR ''.'' \<in> set s"
    with text_cell show "get_value headers values field_name = Inr 0"
      by (simp add: int_of_str_point) }
  { fix n assume "int_of_str s = Some n"
    with text_cell show "get_value headers values field_name = Inr n" by simp }
next
  fix r assume "py_getitem values i = Inr (JFloat (Finite r))"
  with assms show "get_value headers values field_name = Inr (trunc_rat r)"
    by (simp add: get_value_def try_bind_def)
next
  fix n assume "py_getitem values i = Inr (JInt n)"
  with assms show "get_value headers values field_name = Inr n"
    by (simp add: get_value_def try_bind_def)
qed

theorem get_value_cell_conversion_witness:
  "py_index decimal_headers ''B01003_001E'' = Inr 0
   \<and> py_getitem decimal_values 0 = Inr (JStr ''25.5'')
   \<and> get_value decimal_headers decimal_values ''B01003_001E'' = Inr 0
   \<and> py_getitem number_values 0 = Inr (JFloat (Finite (51 / 2)))
   \<and> get_value decimal_headers number_values ''B01003_001E'' = Inr (trunc_rat (51 / 2))"
proof -
  have idx: "py_index decimal_headers ''B01003_001E'' = Inr 0"
    by (simp add: decimal_headers_def)
  have cell: "py_getitem decimal_values 0 = Inr (JStr ''25.5'')"
    by (simp add: decimal_values_def)
  have num: "py_getitem number_values 0 = Inr (JFloat (Finite (51 / 2)))"
    by (simp add: number_values_def)
  from get_value_cell_conversion[OF idx, of decimal_values] cell
  have a: "get_value decimal_headers decimal_values ''B01003_001E'' = Inr 0" by simp
  from get_value_cell_conversion[OF idx, of number_values] num
  have b: "get_value decimal_headers number_values ''B01003_001E'' = Inr (trunc_rat (51 / 2))"
    by simp
  from idx cell num a b show ?thesis by simp
qed

text \<open>
  The claim as stated fails on a number cell: the JSON number 25.5 in the population
  column is truncated to 25.
\<close>

lemma trunc_rat_25_5: "trunc_rat (51 / 2) = 25"
proof -
  have "\<lfloor>51 / 2 :: rat\<rfloor> = 25" by (rule floor_unique) simp_all
  then show ?thesis by (simp add: trunc_rat_def)
qed

theorem fractional_number_is_truncated:
  "get_value decimal_headers number_values ''B01003_001E'' = Inr 25"
  by (simp add: get_value_def decimal_headers_def number_values_def try_bind_def
      trunc_rat_25_5)

section \<open>The extractor: when it returns \<^verbatim>\<open>None\<close>\<close>

lemma suppressed_age_raises:
  "census_try (Payload suppressed_age_payload) ''90210'' = Inl ValueError"
  by (simp add: census_try_def build_demographics_def education_graduate_of_def
      age_65_fields_def get_value_def get_string_value_def try_bind_def caught_def py_or_def
      parse_defs suppressed_age_payload_def suppressed_age_headers_def
      suppressed_age_values_def)

text \<open>
  Claim C6. The extractor returns \<^verbatim>\<open>None\<close> exactly when the request fails at the
  transport or HTTP level, or the payload is empty or has fewer than two rows, or an
  exception is raised inside the \<^verbatim>\<open>try\<close> block (a body that is not JSON included). All
  these cases give the one value \<^verbatim>\<open>None\<close>, so the caller cannot tell them apart.
\<close>

theorem extraction_null_cases:
  "fetch_census_demographics up zip_code = None \<longleftrightarrow>
     (up = HttpFailure
      \<or> (\<exists>data. up = Payload data
            \<and> (\<not> truthy data \<or> (\<exists>n. py_len data = Inr n \<and> n < 2)))
      \<or> (\<exists>e. census_try up zip_code = Inl e))"
  unfolding fetch_census_demographics_def census_try_def
  by (cases up) (auto simp add: try_bind_def split: sum.splits)

theorem extraction_null_cases_witness:
  "fetch_census_demographics HttpFailure ''90210'' = None
   \<and> fetch_census_demographics (Payload header_only_payload) ''90210'' = None
   \<and> fetch_census_demographics (Payload suppressed_age_payload) ''90210'' = None
   \<and> fetch_census_demographics BodyNotJson ''90210'' = None"
proof -
  have a: "fetch_census_demographics HttpFailure ''90210'' = None"
    using extraction_null_cases[of HttpFailure "''90210''"] by simp
  have b: "fetch_census_demographics (Payload header_only_payload) ''90210'' = None"
    using extraction_null_cases[of "Payload header_only_payload" "''90210''"]
    by (simp add: header_only_payload_def)
  have c: "fetch_census_demographics (Payload suppressed_age_payload) ''90210'' = None"
    using extraction_null_cases[of "Payload suppressed_age_payload" "''90210''"]
      suppressed_age_raises by simp
  have d: "fetch_census_demographics BodyNotJson ''90210'' = None"
    using extraction_null_cases[of BodyNotJson "''90210''"]
    by (simp add: census_try_def)
  from a b c d show ?thesis by simp
qed

text \<open>
  Claim C1. The claim fails for \<open>medianAge\<close>: the column is read by \<open>get_string_value\<close> and
  converted by \<open>float\<close> outside the handler of the helpers. For the row below, whose
  median age is the text \<open>N/A\<close>, \<open>get_value\<close> on that column gives the default 0, while
  \<open>float\<close> raises a ValueError that leaves the \<^verbatim>\<open>try\<close> block, and the extractor returns
  \<^verbatim>\<open>None\<close> where the claim asks for a record with \<open>medianAge = 0\<close>.
\<close>

theorem median_age_text_collapses_extraction:
  "get_value suppressed_age_headers suppressed_age_values ''B01002_001E'' = Inr 0
   \<and> get_string_value suppressed_age_headers suppressed_age_values ''B01002_001E''
       = Inr (JStr ''N/A'')
   \<and> py_float (py_or (JStr ''N/A'') (JInt 0)) = Inl ValueError
   \<and> census_try (Payload suppressed_age_payload) ''90210'' = Inl ValueError
   \<and> fetch_census_demographics (Payload suppressed_age_payload) ''90210'' = None"
  by (simp add: fetch_census_demographics_def suppressed_age_raises)
     (simp add: get_value_def get_string_value_def try_bind_def caught_def py_or_def parse_defs
        suppressed_age_headers_def suppressed_age_values_def)

section \<open>The prompts: derived percentages\<close>

lemma try_bind_Inl:
  "(try_bind m f = Inl e) = (m = Inl e \<or> (\<exists>x. m = Inr x \<and> f x = Inl e))"
  by (cases m) (simp_all add: try_bind_def)

text \<open>Without its guard the division raises on a zero denominator.\<close>

lemma py_truediv_zero: "py_truediv a 0 = Inl ZeroDivisionError"
  by (simp add: py_truediv_def)

lemma percent_zero_denominator: "percent_if_positive a 0 = Inr (Finite 0)"
  by (simp add: percent_if_positive_def)

lemma percent_no_zero_division: "percent_if_positive a b \<noteq> Inl ZeroDivisionError"
  by (simp add: percent_if_positive_def py_truediv_def try_bind_def)

text \<open>
  The guard does not keep the division inside the float range: a quotient beyond it
  raises an OverflowError, which leaves the generator before its \<^verbatim>\<open>try\<close>.
\<close>

lemma percent_overflow: "percent_if_positive (10 ^ 400) 1 = Inl OverflowError"
proof -
  have "(10::rat) ^ 309 \<le> 10 ^ 400" by (rule power_increasing) simp_all
  with float_overflow_below have "float_overflow \<le> 10 ^ 400" by (rule order_trans)
  then show ?thesis
    by (simp add: percent_if_positive_def py_truediv_def try_bind_def)
qed

text \<open>What the formatting helpers can raise.\<close>

lemma format_value_raises: "format_value v = Inl e \<Longrightarrow> e = ValueError"
  by (simp add: format_value_def split: if_splits)

lemma format_number_raises: "format_number v = Inl e \<Longrightarrow> e = ValueError"
  by (simp add: format_number_def split: if_splits)

lemma format_currency_raises: "format_currency v = Inl e \<Longrightarrow> e = OverflowError"
  by (simp add: format_currency_def try_bind_def split: if_splits)

lemma format_percent_raises: "format_percent v \<noteq> Inl e"
  by (simp add: format_percent_def)

lemmas percent_defs = higher_ed_percent_def owner_occupied_percent_def wfh_percent_def
  age_under_18_percent_def age_65_plus_percent_def

lemma profile_prompt_no_zero_division: "profile_prompt_of data \<noteq> Inl ZeroDivisionError"
  unfolding profile_prompt_of_def
  by (auto simp add: try_bind_Inl percent_defs percent_no_zero_division format_percent_raises
      dest: format_value_raises format_number_raises format_currency_raises)

lemma doppel_prompt_no_zero_division: "doppel_prompt_of data \<noteq> Inl ZeroDivisionError"
  unfolding doppel_prompt_of_def
  by (auto simp add: try_bind_Inl Let_def percent_defs percent_no_zero_division
      format_percent_raises
      dest: format_value_raises format_number_raises format_currency_raises)

lemma profile_prompt_percentages:
  assumes "profile_prompt_of data = Inr p"
  shows "higher_ed_percent data = Inr (pp_higher_ed_percent p)
       \<and> owner_occupied_percent data = Inr (pp_owner_occupied_percent p)
       \<and> wfh_percent data = Inr (pp_wfh_percent p)
       \<and> age_under_18_percent data = Inr (pp_age_under_18_percent p)
       \<and> age_65_plus_percent data = Inr (pp_age_65_plus_percent p)"
  using assms unfolding profile_prompt_of_def
  by (auto simp add: try_bind_Inr format_percent_def)

lemma doppel_prompt_percentages:
  assumes "doppel_prompt_of data = Inr q"
  shows "higher_ed_percent data = Inr (dp_higher_ed_percent q)
       \<and> owner_occupied_percent data = Inr (dp_owner_occupied_percent q)"
  using assms unfolding doppel_prompt_of_def
  by (auto simp add: try_bind_Inr format_percent_def Let_def)

lemma blank_prompts:
  "\<exists>p q. profile_prompt_of blank_record = Inr p \<and> doppel_prompt_of blank_record = Inr q"
  by (simp add: profile_prompt_of_def doppel_prompt_of_def percent_defs
      percent_if_positive_def format_value_def format_number_small format_currency_small
      format_percent_def try_bind_def Let_def blank_record_def)

text \<open>
  Claim C8. With \<open>educationPopulation = 0\<close> the higher-education percentage is 0;
  likewise the owner-occupied percentage with \<open>housingUnits = 0\<close>, the work-from-home
  percentage with \<open>commuteTotal = 0\<close>, and the two age percentages with \<open>population = 0\<close>.
  For every record, no percentage and neither generator raises a ZeroDivisionError. The
  percentages are the ones that stand in the prompt of the profile generator and of the
  similarity finder.
\<close>

theorem zero_denominator_percentages:
  "(educationPopulation data = 0 \<longrightarrow> higher_ed_percent data = Inr (Finite 0))
   \<and> (housingUnits data = 0 \<longrightarrow> owner_occupied_percent data = Inr (Finite 0))
   \<and> (commuteTotal data = 0 \<longrightarrow> wfh_percent data = Inr (Finite 0))
   \<and> (population data = 0 \<longrightarrow>
        age_under_18_percent data = Inr (Finite 0) \<and> age_65_plus_percent data = Inr (Finite 0))
   \<and> higher_ed_percent data \<noteq> Inl ZeroDivisionError
   \<and> owner_occupied_percent data \<noteq> Inl ZeroDivisionError
   \<and> wfh_percent data \<noteq> Inl ZeroDivisionError
   \<and> age_under_18_percent data \<noteq> Inl ZeroDivisionError
   \<and> age_65_plus_percent data \<noteq> Inl ZeroDivisionError
   \<and> get_gemini_profile generate_profile data \<noteq> Inl ZeroDivisionError
   \<and> find_doppelgangers generate_list data \<noteq> Inl ZeroDivisionError
   \<and> (\<forall>p. profile_prompt_of data = Inr p \<longrightarrow>
          higher_ed_percent data = Inr (pp_higher_ed_percent p)
        \<and> owner_occupied_percent data = Inr (pp_owner_occupied_percent p)
        \<and> wfh_percent data = Inr (pp_wfh_percent p)
        \<and> age_under_18_percent data = Inr (pp_age_under_18_percent p)
        \<and> age_65_plus_percent data = Inr (pp_age_65_plus_percent p))
   \<and> (\<forall>q. doppel_prompt_of data = Inr q \<longrightarrow>
          higher_ed_percent data = Inr (dp_higher_ed_percent q)
        \<and> owner_occupied_percent data = Inr (dp_owner_occupied_percent q))"
proof -
  have zero: "educationPopulation data = 0 \<longrightarrow> higher_ed_percent data = Inr (Finite 0)"
    "housingUnits data = 0 \<longrightarrow> owner_occupied_percent data = Inr (Finite 0)"
    "commuteTotal data = 0 \<longrightarrow> wfh_percent data = Inr (Finite 0)"
    "population data = 0 \<longrightarrow>
        age_under_18_percent data = Inr (Finite 0) \<and> age_65_plus_percent data = Inr (Finite 0)"
    by (simp_all add: percent_defs percent_zero_denominator)
  have safe: "higher_ed_percent data \<noteq> Inl ZeroDivisionError"
    "owner_occupied_percent data \<noteq> Inl ZeroDivisionError"
    "wfh_percent data \<noteq> Inl ZeroDivisionError"
    "age_under_18_percent data \<noteq> Inl ZeroDivisionError"
    "age_65_plus_percent data \<noteq> Inl ZeroDivisionError"
    by (simp_all add: percent_defs percent_no_zero_division)
  have gen: "get_gemini_profile generate_profile data \<noteq> Inl ZeroDivisionError"
    using profile_prompt_no_zero_division[of data]
    by (auto simp add: get_gemini_profile_def try_bind_Inl split: sum.splits)
  have lst: "find_doppelgangers generate_list data \<noteq> Inl ZeroDivisionError"
    using doppel_prompt_no_zero_division[of data]
    by (auto simp add: find_doppelgangers_def try_bind_Inl split: sum.splits)
  from zero safe gen lst profile_prompt_percentages doppel_prompt_percentages
  show ?thesis by blast
qed

theorem zero_denominator_percentages_witness:
  "higher_ed_percent blank_record = Inr (Finite 0)
   \<and> owner_occupied_percent blank_record = Inr (Finite 0)
   \<and> wfh_percent blank_record = Inr (Finite 0)
   \<and> age_under_18_percent blank_record = Inr (Finite 0)
   \<and> age_65_plus_percent blank_record = Inr (Finite 0)
   \<and> (\<exists>p q. profile_prompt_of blank_record = Inr p \<and> doppel_prompt_of blank_record = Inr q
         \<and> pp_higher_ed_percent p = Finite 0 \<and> dp_higher_ed_percent q = Finite 0
         \<and> pp_owner_occupied_percent p = Finite 0 \<and> dp_owner_occupied_percent q = Finite 0
         \<and> pp_wfh_percent p = Finite 0
         \<and> pp_age_under_18_percent p = Finite 0 \<and> pp_age_65_plus_percent p = Finite 0)"
proof -
  have zeros: "educationPopulation blank_record = 0" "housingUnits blank_record = 0"
    "commuteTotal blank_record = 0" "population blank_record = 0"
    by (simp_all add: blank_record_def)
  obtain p q where pq: "profile_prompt_of blank_record = Inr p"
    "doppel_prompt_of blank_record = Inr q"
    using blank_prompts by blast
  from zero_denominator_percentages
         [of blank_record "profile_model steady_world" "doppel_model steady_world"]
       zeros pq
  show ?thesis by auto
qed

section \<open>Two long numbers\<close>

lemma digits_from_zeros: "digits_from acc (replicate k (CHR ''0'')) = Some (acc * 10 ^ k)"
  by (induction k arbitrary: acc) (simp_all add: is_digit_def digit_val_def)

lemma digits_from_nines:
  "digits_from acc (replicate k (CHR ''9'')) = Some ((acc + 1) * 10 ^ k - 1)"
proof (induction k arbitrary: acc)
  case 0
  then show ?case by simp
next
  case (Suc k)
  have "digits_from acc (replicate (Suc k) (CHR ''9''))
          = digits_from (acc * 10 + 9) (replicate k (CHR ''9''))"
    by (simp add: is_digit_def digit_val_def)
  also have "\<dots> = Some ((acc * 10 + 9 + 1) * 10 ^ k - 1)" by (rule Suc.IH)
  also have "(acc * 10 + 9 + 1) * 10 ^ k = (acc + 1) * 10 ^ Suc k" by (simp add: algebra_simps)
  finally show ?case .
qed

lemma int_of_str_one_and_zeros: "int_of_str one_and_zeros = Some (10 ^ 309)"
proof -
  have "strip one_and_zeros = one_and_zeros"
    by (rule strip_id) (simp_all add: one_and_zeros_def is_space_def)
  moreover have "take_sign one_and_zeros = (1, one_and_zeros)"
    by (simp add: take_sign_def one_and_zeros_def)
  moreover have "digitpart one_and_zeros = Some (10 ^ 309)"
    by (simp add: digitpart_def one_and_zeros_def is_digit_def digit_val_def digits_from_zeros)
  moreover have "count_digits one_and_zeros = 310"
    by (simp add: count_digits_def one_and_zeros_def is_digit_def)
  ultimately show ?thesis by (simp add: int_of_str_def max_str_digits_def)
qed

lemma int_of_str_replicate_nines:
  assumes "Suc k \<le> max_str_digits"
  shows "int_of_str (replicate (Suc k) (CHR ''9'')) = Some (10 ^ Suc k - 1)"
proof -
  let ?s = "replicate (Suc k) (CHR ''9'')"
  have "last ?s = CHR ''9''" by (simp only: last_replicate)
  then have "strip ?s = ?s"
    by (intro strip_id) (simp_all add: is_space_def)
  moreover have "take_sign ?s = (1, ?s)"
    by (simp add: take_sign_def)
  moreover have "digitpart ?s = Some (10 * 10 ^ k - 1)"
    by (simp add: digitpart_def is_digit_def digit_val_def digits_from_nines)
  moreover have "count_digits ?s = Suc k"
    by (simp add: count_digits_def is_digit_def)
  moreover have "int ((10::nat) * 10 ^ k - 1) = 10 * 10 ^ k - 1"
    by (simp add: of_nat_diff)
  ultimately show ?thesis using assms by (simp add: int_of_str_def)
qed

lemma int_of_str_nines: "int_of_str nines = Some (10 ^ max_str_digits - 1)"
proof -
  obtain k where k: "max_str_digits = Suc k"
    by (cases max_str_digits) (simp_all add: max_str_digits_def)
  then have "Suc k \<le> max_str_digits" by simp
  from int_of_str_replicate_nines[OF this] show ?thesis
    by (simp only: nines_def k)
qed

lemma large_income_fetch:
  "fetch_census_demographics (Payload large_income_payload) ''90210'' = Some large_income_record"
  by (simp add: fetch_census_demographics_def census_try_def build_demographics_def
      education_graduate_of_def age_65_fields_def get_value_def get_string_value_def
      try_bind_def caught_def py_or_def float_overflow_pos
      int_of_str_one_and_zeros large_income_payload_def large_income_record_def
      blank_record_def)

lemma long_counts_fetch:
  "fetch_census_demographics (Payload long_counts_payload) ''90210'' = Some long_counts_record"
  by (simp add: fetch_census_demographics_def census_try_def build_demographics_def
      education_graduate_of_def age_65_fields_def get_value_def get_string_value_def
      try_bind_def caught_def py_or_def float_overflow_pos
      int_of_str_nines long_counts_payload_def long_counts_record_def blank_record_def)

lemma long_sum_beyond_limit: "\<not> str_digits_ok (2 * (10 ^ max_str_digits - 1))"
proof -
  have "(10::int) ^ 1 \<le> 10 ^ max_str_digits"
    by (rule power_increasing) (simp_all add: max_str_digits_def)
  then have "(10::int) ^ max_str_digits \<le> \<bar>2 * (10 ^ max_str_digits - 1)\<bar>" by simp
  then show ?thesis by (simp add: str_digits_ok_def)
qed

section \<open>The endpoint: one request\<close>

lemma requested_zip_request: "requested_zip w (zip_request z) = Inr (Inr z)"
  by (simp add: requested_zip_def zip_request_def try_bind_def py_str_def)

lemma method_zip_request: "req_method (zip_request z) = POST"
  by (simp add: zip_request_def)

lemma handle_post:
  "req_method req = POST \<Longrightarrow> requested_zip w req = Inr (Inr z) \<Longrightarrow>
   handle_find_twin w db req =
     (case lookup_twin w db z of
        (Inl e, db') \<Rightarrow> (internal_error, db')
      | (Inr result, db') \<Rightarrow> (result, db'))"
  by (simp add: handle_find_twin_def)

text \<open>
  A generator returns when its prompt is built: a reply of the model or its error
  object. An exception of the prompt leaves the generator. The prompt of the similarity
  finder is built whenever the prompt of the profile generator is.
\<close>

lemma get_gemini_profile_result:
  "profile_prompt_of d = Inr p \<Longrightarrow>
   get_gemini_profile g d = Inr (case g p of Inr reply \<Rightarrow> reply | Inl e \<Rightarrow> profile_error)"
  by (cases "g p") (simp_all add: get_gemini_profile_def try_bind_def)

lemma find_doppelgangers_result:
  "doppel_prompt_of d = Inr q \<Longrightarrow>
   find_doppelgangers g d = Inr (case g q of Inr reply \<Rightarrow> reply | Inl e \<Rightarrow> doppel_error)"
  by (cases "g q") (simp_all add: find_doppelgangers_def try_bind_def)

lemma get_gemini_profile_raises:
  "profile_prompt_of d = Inl e \<Longrightarrow> get_gemini_profile g d = Inl e"
  by (simp add: get_gemini_profile_def try_bind_def)

lemma doppel_prompt_follows:
  assumes "profile_prompt_of d = Inr p"
  shows "\<exists>q. doppel_prompt_of d = Inr q"
  using assms unfolding profile_prompt_of_def doppel_prompt_of_def
  by (auto simp add: try_bind_Inr Let_def format_percent_def)

lemma lookup_twin_hit:
  "cache_lookup w db z = Inr (Some doc) \<Longrightarrow>
   lookup_twin w db z = (try_bind (jsonify doc) (\<lambda>b. Inr (b, 200)), db)"
  by (simp add: lookup_twin_def)

lemma lookup_twin_not_found:
  "cache_lookup w db z = Inr None \<Longrightarrow> fetch_census_demographics (census w z) z = None \<Longrightarrow>
   lookup_twin w db z = (Inr (no_data_found z), db)"
  by (simp add: lookup_twin_def)

lemma lookup_twin_read_failure:
  "cache_lookup w db z = Inl e \<Longrightarrow> lookup_twin w db z = (Inl e, db)"
  by (simp add: lookup_twin_def)

lemma lookup_twin_prompt_failure:
  "cache_lookup w db z = Inr None \<Longrightarrow> fetch_census_demographics (census w z) z = Some d \<Longrightarrow>
   profile_prompt_of d = Inl e \<Longrightarrow> lookup_twin w db z = (Inl e, db)"
  by (simp add: lookup_twin_def get_gemini_profile_raises)

lemma lookup_twin_fresh:
  assumes "cache_lookup w db z = Inr None"
    and "fetch_census_demographics (census w z) z = Some d"
    and "profile_prompt_of d = Inr p"
    and "doppel_prompt_of d = Inr q"
    and "final_result =
      \<lparr> e_demographics = d,
        e_profile = (case profile_model w p of Inr reply \<Rightarrow> reply | Inl e \<Rightarrow> profile_error),
        e_doppelgangers = (case doppel_model w q of Inr reply \<Rightarrow> reply | Inl e \<Rightarrow> doppel_error) \<rparr>"
  shows "lookup_twin w db z =
           (try_bind (jsonify final_result) (\<lambda>b. Inr (b, 200)),
            cache_save w db z final_result)"
  using assms(1,2,5)
    get_gemini_profile_result[OF assms(3), of "profile_model w"]
    find_doppelgangers_result[OF assms(4), of "doppel_model w"]
  by (simp add: lookup_twin_def Let_def)

text \<open>
  With no client, with a read that finds nothing, and with a write that fails, the
  response is the one given with no cache at all.
\<close>

lemma cache_miss_same_response:
  assumes "req_method req = POST"
    and "requested_zip w req = Inr (Inr z)"
    and "cache_lookup w db z = Inr None"
  shows "fst (handle_find_twin w db req) = fst (handle_find_twin w None req)"
proof -
  have none: "cache_lookup w None z = Inr None" by (simp add: cache_lookup_def)
  have "fst (lookup_twin w db z) = fst (lookup_twin w None z)"
    using assms(3) none
    by (simp add: lookup_twin_def Let_def split: option.splits sum.splits)
  then show ?thesis
    using assms(1,2)
    by (cases "lookup_twin w db z"; cases "lookup_twin w None z")
       (auto simp add: handle_post split: sum.splits)
qed

text \<open>What the scenario record and the two long records give.\<close>

lemma scenario_prompts:
  "\<exists>p q. profile_prompt_of scenario_record = Inr p \<and> doppel_prompt_of scenario_record = Inr q"
  by (simp add: profile_prompt_of_def doppel_prompt_of_def percent_defs
      percent_if_positive_def py_truediv_small times_100_def to_float_small
      format_value_def format_number_small format_currency_small
      format_percent_def try_bind_def Let_def scenario_record_def)

lemma scenario_entry_serialisable: "entry_serialisable scenario_entry"
  by (simp add: entry_serialisable_def demographics_counts_def scenario_entry_def
      scenario_record_def sample_profile_def sample_doppelgangers_def str_digits_ok_small)

lemma degraded_entry_serialisable: "entry_serialisable degraded_entry"
  by (simp add: entry_serialisable_def demographics_counts_def degraded_entry_def
      scenario_record_def profile_error_def sample_doppelgangers_def str_digits_ok_small)

lemma large_income_prompt: "profile_prompt_of large_income_record = Inl OverflowError"
proof -
  have "float_overflow \<le> \<bar>of_int (10 ^ 309)\<bar>"
    using float_overflow_below by simp
  then have "format_currency (10 ^ 309) = Inl OverflowError"
    by (simp add: format_currency_def try_bind_def)
  then show ?thesis
    by (simp add: profile_prompt_of_def percent_defs percent_if_positive_def
        format_value_def format_number_small format_percent_def try_bind_def
        large_income_record_def blank_record_def)
qed

lemma long_counts_prompts:
  "\<exists>p q. profile_prompt_of long_counts_record = Inr p \<and> doppel_prompt_of long_counts_record = Inr q"
  by (simp add: profile_prompt_of_def doppel_prompt_of_def percent_defs
      percent_if_positive_def format_value_def format_number_small format_currency_small
      format_percent_def try_bind_def Let_def long_counts_record_def blank_record_def)

lemma long_counts_not_serialisable:
  assumes "e_demographics e = long_counts_record"
  shows "jsonify e = Inl ValueError"
proof -
  have "\<not> str_digits_ok (educationGraduate long_counts_record)"
    using long_sum_beyond_limit by (simp add: long_counts_record_def)
  then have "\<not> list_all str_digits_ok (demographics_counts long_counts_record)"
    by (simp add: demographics_counts_def)
  with assms show ?thesis by (simp add: jsonify_def entry_serialisable_def)
qed

text \<open>
  Claim C7, as amended. On a request that reaches the generators (a POST with a ZIP code,
  no cached entry, a record extracted), if both prompts are built and the combined
  result can be serialised, the response is 200 with the combined entry. A sub-field is
  the reply of its model call, or exactly the error object of its generator when that
  call raises: \<open>{"error": "Failed to generate Gemini profile."}\<close> for the profile,
  \<open>{"error": "Failed to find doppelgangers."}\<close> for the similarity list. Each sub-field
  depends on its own call only. The entry, degraded or not, goes through the cache write:
  with a client whose write succeeds it is stored under the ZIP code.
\<close>

theorem model_failure_is_embedded:
  assumes "req_method req = POST"
    and "requested_zip w req = Inr (Inr zip_code)"
    and "cache_lookup w db zip_code = Inr None"
    and "fetch_census_demographics (census w zip_code) zip_code = Some d"
    and "profile_prompt_of d = Inr p"
    and "doppel_prompt_of d = Inr q"
    and "final_result =
      \<lparr> e_demographics = d,
        e_profile = (case profile_model w p of Inr reply \<Rightarrow> reply | Inl e \<Rightarrow> profile_error),
        e_doppelgangers = (case doppel_model w q of Inr reply \<Rightarrow> reply | Inl e \<Rightarrow> doppel_error) \<rparr>"
    and "entry_serialisable final_result"
  shows "handle_find_twin w db req
           = ((EntryBody final_result, 200), cache_save w db zip_code final_result)
       \<and> profile_error = JObj [(''error'', JStr ''Failed to generate Gemini profile.'')]
       \<and> doppel_error = JObj [(''error'', JStr ''Failed to find doppelgangers.'')]
       \<and> (\<forall>s. db = Some s \<longrightarrow> \<not> cache_set_fails w \<longrightarrow>
             snd (handle_find_twin w db req) = Some (s(zip_code \<mapsto> final_result)))"
proof -
  from lookup_twin_fresh[OF assms(3-7)] assms(8)
  have "lookup_twin w db zip_code
          = (Inr (EntryBody final_result, 200), cache_save w db zip_code final_result)"
    by (simp add: jsonify_def try_bind_def)
  with assms(1,2)
  have h: "handle_find_twin w db req
           = ((EntryBody final_result, 200), cache_save w db zip_code final_result)"
    by (simp add: handle_post)
  have saved: "\<forall>s. db = Some s \<longrightarrow> \<not> cache_set_fails w \<longrightarrow>
         snd (handle_find_twin w db req) = Some (s(zip_code \<mapsto> final_result))"
    using h by (auto simp add: cache_save_def)
  from h saved show ?thesis
    by (simp add: profile_error_def doppel_error_def)
qed

theorem model_failure_is_embedded_witness:
  "handle_find_twin profile_down_world (Some empty_store) (zip_request ''90210'')
     = ((EntryBody degraded_entry, 200), Some (empty_store(''90210'' \<mapsto> degraded_entry)))
   \<and> e_profile degraded_entry = JObj [(''error'', JStr ''Failed to generate Gemini profile.'')]
   \<and> e_doppelgangers degraded_entry = sample_doppelgangers"
proof -
  have m: "req_method (zip_request ''90210'') = POST"
    by (rule method_zip_request)
  have rz: "requested_zip profile_down_world (zip_request ''90210'') = Inr (Inr ''90210'')"
    by (rule requested_zip_request)
  have cl: "cache_lookup profile_down_world (Some empty_store) ''90210'' = Inr None"
    by (simp add: cache_lookup_def profile_down_world_def steady_world_def empty_store_def)
  have f: "fetch_census_demographics (census profile_down_world ''90210'') ''90210''
             = Some scenario_record"
    by (simp add: profile_down_world_def steady_world_def scenario_fetch)
  obtain p q where p: "profile_prompt_of scenario_record = Inr p"
    and q: "doppel_prompt_of scenario_record = Inr q"
    using scenario_prompts by blast
  have fr: "degraded_entry =
      \<lparr> e_demographics = scenario_record,
        e_profile = (case profile_model profile_down_world p of
                       Inr reply \<Rightarrow> reply | Inl e \<Rightarrow> profile_error),
        e_doppelgangers = (case doppel_model profile_down_world q of
                             Inr reply \<Rightarrow> reply | Inl e \<Rightarrow> doppel_error) \<rparr>"
    by (simp add: degraded_entry_def profile_down_world_def steady_world_def)
  from model_failure_is_embedded[OF m rz cl f p q fr degraded_entry_serialisable]
  show ?thesis
    by (simp add: cache_save_def profile_down_world_def steady_world_def degraded_entry_def
        profile_error_def)
qed

text \<open>
  The claim as stated fails where an exception is raised outside the \<^verbatim>\<open>try\<close> blocks of
  the generators. In the first world the median household income is \<open>10 ^ 309\<close>: the
  profile generator raises an OverflowError while formatting its prompt, before its
  \<^verbatim>\<open>try\<close>, and the response is 500. In the second world two degree counts of 4300
  digits each add up to 4301 digits: both prompts are built, the model call of the
  profile generator raises and is replaced by the error object, and the serialisation of
  the combined result raises a ValueError, so the response is 500 again.
\<close>

theorem generator_failure_answers_500:
  "fetch_census_demographics (census large_income_world ''90210'') ''90210''
     = Some large_income_record
   \<and> get_gemini_profile (profile_model large_income_world) large_income_record
     = Inl OverflowError
   \<and> fst (handle_find_twin large_income_world None (zip_request ''90210''))
     = (ErrorBody ''An internal server error occurred.'', 500)
   \<and> fetch_census_demographics (census long_counts_world ''90210'') ''90210''
     = Some long_counts_record
   \<and> get_gemini_profile (profile_model long_counts_world) long_counts_record
     = Inr (JObj [(''error'', JStr ''Failed to generate Gemini profile.'')])
   \<and> fst (handle_find_twin long_counts_world None (zip_request ''90210''))
     = (ErrorBody ''An internal server error occurred.'', 500)"
proof -
  have none: "\<And>w. cache_lookup w None ''90210'' = Inr None"
    by (simp add: cache_lookup_def)
  have f1: "fetch_census_demographics (census large_income_world ''90210'') ''90210''
     = Some large_income_record"
    by (simp add: large_income_world_def steady_world_def large_income_fetch)
  have g1: "get_gemini_profile (profile_model large_income_world) large_income_record
     = Inl OverflowError"
    by (rule get_gemini_profile_raises) (rule large_income_prompt)
  from lookup_twin_prompt_failure[OF none f1 large_income_prompt]
  have h1: "fst (handle_find_twin large_income_world None (zip_request ''90210''))
     = (ErrorBody ''An internal server error occurred.'', 500)"
    by (simp add: handle_post method_zip_request requested_zip_request internal_error_def)
  have f2: "fetch_census_demographics (census long_counts_world ''90210'') ''90210''
     = Some long_counts_record"
    by (simp add: long_counts_world_def steady_world_def long_counts_fetch)
  obtain p q where p: "profile_prompt_of long_counts_record = Inr p"
    and q: "doppel_prompt_of long_counts_record = Inr q"
    using long_counts_prompts by blast
  have g2: "get_gemini_profile (profile_model long_counts_world) long_counts_record
     = Inr (JObj [(''error'', JStr ''Failed to generate Gemini profile.'')])"
    using get_gemini_profile_result[OF p, of "profile_model long_counts_world"]
    by (simp add: long_counts_world_def steady_world_def profile_error_def)
  define fr where "fr =
      \<lparr> e_demographics = long_counts_record,
        e_profile = (case profile_model long_counts_world p of
                       Inr reply \<Rightarrow> reply | Inl e \<Rightarrow> profile_error),
        e_doppelgangers = (case doppel_model long_counts_world q of
                             Inr reply \<Rightarrow> reply | Inl e \<Rightarrow> doppel_error) \<rparr>"
  have "jsonify fr = Inl ValueError"
    by (rule long_counts_not_serialisable) (simp add: fr_def)
  with lookup_twin_fresh[OF none f2 p q fr_def]
  have h2: "fst (handle_find_twin long_counts_world None (zip_request ''90210''))
     = (ErrorBody ''An internal server error occurred.'', 500)"
    by (simp add: handle_post method_zip_request requested_zip_request internal_error_def
        try_bind_def)
  from f1 g1 h1 f2 g2 h2 show ?thesis by simp
qed

section \<open>The endpoint: two requests\<close>

text \<open>
  Claim C9. Two successive POST requests for the same ZIP code, with a cache client and
  cache reads and the first write not failing. If the first response is 200, its entry is
  stored under the ZIP code and the second response is that stored entry, identical to
  the first, whatever the Census and the model would answer the second time (the second
  world is arbitrary). If nothing outside has changed (same world, same request), the
  second response is identical to the first whatever its status.
\<close>

theorem repeated_lookup_identical:
  assumes m1: "req_method req1 = POST" and m2: "req_method req2 = POST"
    and z1: "requested_zip w1 req1 = Inr (Inr zip_code)"
    and z2: "requested_zip w2 req2 = Inr (Inr zip_code)"
    and g1: "\<not> cache_get_fails w1" and s1: "\<not> cache_set_fails w1"
    and g2: "\<not> cache_get_fails w2"
    and first: "handle_find_twin w1 (Some s) req1 = ((b1, st1), db1)"
  shows "(st1 = 200 \<longrightarrow>
            handle_find_twin w2 db1 req2 = ((b1, st1), db1)
            \<and> (\<exists>e s'. db1 = Some s' \<and> s' zip_code = Some e \<and> b1 = EntryBody e))
       \<and> (w2 = w1 \<and> req2 = req1 \<longrightarrow> handle_find_twin w2 db1 req2 = ((b1, st1), db1))"
proof -
  have hit: "\<And>w t e. \<not> cache_get_fails w \<Longrightarrow> t zip_code = Some e \<Longrightarrow>
      lookup_twin w (Some t) zip_code = (try_bind (jsonify e) (\<lambda>b. Inr (b, 200)), Some t)"
    by (rule lookup_twin_hit) (simp add: cache_lookup_def)
  show ?thesis
  proof (cases "s zip_code")
    case (Some e0)
    note h1 = hit[of w1 s e0, OF g1 Some] and h2 = hit[of w2 s e0, OF g2 Some]
    show ?thesis
    proof (cases "jsonify e0")
      case (Inl err)
      with h1 first m1 z1 have r: "(b1, st1) = internal_error" "db1 = Some s"
        by (simp_all add: handle_post try_bind_def)
      then have "st1 = 500" by (auto simp add: internal_error_def)
      with r first show ?thesis by auto
    next
      case (Inr b)
      then have b: "b = EntryBody e0" by (simp add: jsonify_def split: if_splits)
      from Inr h1 first m1 z1 have r: "b1 = b" "st1 = 200" "db1 = Some s"
        by (simp_all add: handle_post try_bind_def)
      from Inr h2 m2 z2 have "handle_find_twin w2 (Some s) req2 = ((b, 200), Some s)"
        by (simp add: handle_post try_bind_def)
      with r b Some first show ?thesis by auto
    qed
  next
    case None
    with g1 have miss: "cache_lookup w1 (Some s) zip_code = Inr None"
      by (simp add: cache_lookup_def)
    show ?thesis
    proof (cases "fetch_census_demographics (census w1 zip_code) zip_code")
      case None
      from lookup_twin_not_found[OF miss None] first m1 z1
      have r: "(b1, st1) = no_data_found zip_code" "db1 = Some s"
        by (simp_all add: handle_post)
      then have "st1 = 404" by (simp add: no_data_found_def)
      with r first show ?thesis by auto
    next
      case (Some d)
      show ?thesis
      proof (cases "profile_prompt_of d")
        case (Inl err)
        from lookup_twin_prompt_failure[OF miss Some Inl] first m1 z1
        have r: "(b1, st1) = internal_error" "db1 = Some s"
          by (simp_all add: handle_post)
        then have "st1 = 500" by (auto simp add: internal_error_def)
        with r first show ?thesis by auto
      next
        case (Inr p)
        from doppel_prompt_follows[OF Inr] obtain q where q: "doppel_prompt_of d = Inr q"
          by blast
        define fr where "fr =
          \<lparr> e_demographics = d,
            e_profile = (case profile_model w1 p of
                           Inr reply \<Rightarrow> reply | Inl e \<Rightarrow> profile_error),
            e_doppelgangers = (case doppel_model w1 q of
                                 Inr reply \<Rightarrow> reply | Inl e \<Rightarrow> doppel_error) \<rparr>"
        from lookup_twin_fresh[OF miss Some Inr q fr_def] s1
        have lt: "lookup_twin w1 (Some s) zip_code
                    = (try_bind (jsonify fr) (\<lambda>b. Inr (b, 200)), Some (s(zip_code \<mapsto> fr)))"
          by (simp add: cache_save_def)
        have stored: "(s(zip_code \<mapsto> fr)) zip_code = Some fr" by simp
        note h1 = hit[of w1 "s(zip_code \<mapsto> fr)" fr, OF g1 stored]
          and h2 = hit[of w2 "s(zip_code \<mapsto> fr)" fr, OF g2 stored]
        show ?thesis
        proof (cases "jsonify fr")
          case (Inl err)
          with lt first m1 z1
          have r: "(b1, st1) = internal_error" "db1 = Some (s(zip_code \<mapsto> fr))"
            by (simp_all add: handle_post try_bind_def)
          from r have st: "st1 = 500" by (auto simp add: internal_error_def)
          from Inl h1 m1 z1
          have "handle_find_twin w1 (Some (s(zip_code \<mapsto> fr))) req1
                  = (internal_error, Some (s(zip_code \<mapsto> fr)))"
            by (simp add: handle_post try_bind_def)
          with r st show ?thesis by auto
        next
          case (Inr b)
          then have b: "b = EntryBody fr" by (simp add: jsonify_def split: if_splits)
          from Inr lt first m1 z1
          have r: "b1 = b" "st1 = 200" "db1 = Some (s(zip_code \<mapsto> fr))"
            by (simp_all add: handle_post try_bind_def)
          from Inr h2 m2 z2
          have "handle_find_twin w2 (Some (s(zip_code \<mapsto> fr))) req2
                  = ((b, 200), Some (s(zip_code \<mapsto> fr)))"
            by (simp add: handle_post try_bind_def)
          with r b show ?thesis by auto
        qed
      qed
    qed
  qed
qed

theorem repeated_lookup_identical_witness:
  "handle_find_twin steady_world (Some empty_store) (zip_request ''90210'')
     = ((EntryBody scenario_entry, 200), Some (empty_store(''90210'' \<mapsto> scenario_entry)))
   \<and> handle_find_twin outage_world (Some (empty_store(''90210'' \<mapsto> scenario_entry)))
       (zip_request ''90210'')
     = ((EntryBody scenario_entry, 200), Some (empty_store(''90210'' \<mapsto> scenario_entry)))
   \<and> fst (handle_find_twin outage_world (Some empty_store) (zip_request ''90210''))
     = no_data_found ''90210''"
proof -
  have m: "req_method (zip_request ''90210'') = POST"
    by (rule method_zip_request)
  have miss: "cache_lookup steady_world (Some empty_store) ''90210'' = Inr None"
    by (simp add: cache_lookup_def steady_world_def empty_store_def)
  have f: "fetch_census_demographics (census steady_world ''90210'') ''90210''
             = Some scenario_record"
    by (simp add: steady_world_def scenario_fetch)
  obtain p q where p: "profile_prompt_of scenario_record = Inr p"
    and q: "doppel_prompt_of scenario_record = Inr q"
    using scenario_prompts by blast
  have fr: "scenario_entry =
      \<lparr> e_demographics = scenario_record,
        e_profile = (case profile_model steady_world p of
                       Inr reply \<Rightarrow> reply | Inl e \<Rightarrow> profile_error),
        e_doppelgangers = (case doppel_model steady_world q of
                             Inr reply \<Rightarrow> reply | Inl e \<Rightarrow> doppel_error) \<rparr>"
    by (simp add: scenario_entry_def steady_world_def)
  from lookup_twin_fresh[OF miss f p q fr] scenario_entry_serialisable
  have first: "handle_find_twin steady_world (Some empty_store) (zip_request ''90210'')
     = ((EntryBody scenario_entry, 200), Some (empty_store(''90210'' \<mapsto> scenario_entry)))"
    by (simp add: handle_post method_zip_request requested_zip_request cache_save_def
        jsonify_def try_bind_def steady_world_def)
  have ok: "\<not> cache_get_fails steady_world" "\<not> cache_set_fails steady_world"
    "\<not> cache_get_fails outage_world"
    by (simp_all add: steady_world_def outage_world_def)
  from repeated_lookup_identical[OF m m requested_zip_request requested_zip_request ok first]
  have second: "handle_find_twin outage_world
        (Some (empty_store(''90210'' \<mapsto> scenario_entry))) (zip_request ''90210'')
     = ((EntryBody scenario_entry, 200), Some (empty_store(''90210'' \<mapsto> scenario_entry)))"
    by simp
  have miss': "cache_lookup outage_world (Some empty_store) ''90210'' = Inr None"
    by (simp add: cache_lookup_def outage_world_def empty_store_def)
  have f': "fetch_census_demographics (census outage_world ''90210'') ''90210'' = None"
    by (simp add: outage_world_def fetch_census_demographics_def census_try_def)
  from lookup_twin_not_found[OF miss' f']
  have third: "fst (handle_find_twin outage_world (Some empty_store) (zip_request ''90210''))
     = no_data_found ''90210''"
    by (simp add: handle_post method_zip_request requested_zip_request)
  from first second third show ?thesis by simp
qed

section \<open>The endpoint: a cache read that fails\<close>

text \<open>
  Claim C2. The claim fails for a cache read that raises. The read stands in the \<^verbatim>\<open>try\<close>
  block of the endpoint with no handler of its own, so its exception reaches
  \<^verbatim>\<open>except Exception\<close> and the response is 500; with no cache at all the same request in
  the same world is answered 200 with the combined entry. (A client that failed to
  initialise and a write that fails do leave the response as it is without a cache:
  lemma \<open>cache_miss_same_response\<close>.)
\<close>

theorem cache_read_failure_answers_500:
  "fst (handle_find_twin read_failure_world (Some empty_store) (zip_request ''90210''))
     = (ErrorBody ''An internal server error occurred.'', 500)
   \<and> fst (handle_find_twin read_failure_world None (zip_request ''90210''))
     = (EntryBody scenario_entry, 200)"
proof -
  have fails: "cache_lookup read_failure_world (Some empty_store) ''90210'' = Inl StoreError"
    by (simp add: cache_lookup_def read_failure_world_def steady_world_def)
  from lookup_twin_read_failure[OF fails]
  have a: "fst (handle_find_twin read_failure_world (Some empty_store) (zip_request ''90210''))
     = (ErrorBody ''An internal server error occurred.'', 500)"
    by (simp add: handle_post method_zip_request requested_zip_request internal_error_def)
  have miss: "cache_lookup read_failure_world None ''90210'' = Inr None"
    by (simp add: cache_lookup_def)
  have f: "fetch_census_demographics (census read_failure_world ''90210'') ''90210''
             = Some scenario_record"
    by (simp add: read_failure_world_def steady_world_def scenario_fetch)
  obtain p q where p: "profile_prompt_of scenario_record = Inr p"
    and q: "doppel_prompt_of scenario_record = Inr q"
    using scenario_prompts by blast
  have fr: "scenario_entry =
      \<lparr> e_demographics = scenario_record,
        e_profile = (case profile_model read_failure_world p of
                       Inr reply \<Rightarrow> reply | Inl e \<Rightarrow> profile_error),
        e_doppelgangers = (case doppel_model read_failure_world q of
                             Inr reply \<Rightarrow> reply | Inl e \<Rightarrow> doppel_error) \<rparr>"
    by (simp add: scenario_entry_def read_failure_world_def steady_world_def)
  from lookup_twin_fresh[OF miss f p q fr] scenario_entry_serialisable
  have b: "fst (handle_find_twin read_failure_world None (zip_request ''90210''))
     = (EntryBody scenario_entry, 200)"
    by (simp add: handle_post method_zip_request requested_zip_request jsonify_def
        try_bind_def)
  from a b show ?thesis by simp
qed

end
